theory Spec2Isabelle
  imports Complex_Main
begin

section \<open>Python values used by the worker\<close>

text \<open>
  The program is one Python module, \<^verbatim>\<open>tool.py\<close>: a Qt front end (\<^verbatim>\<open>GitManager\<close>)
  that submits \<^verbatim>\<open>GitWorker\<close> runnables to a thread pool; each worker talks to git
  through GitPython and reports through three Qt signals (\<^verbatim>\<open>result\<close>, \<^verbatim>\<open>error\<close>,
  \<^verbatim>\<open>progress\<close>).

  Conventions of the embedding.
  \<^item> A Python \<^verbatim>\<open>str\<close> is a \<^typ>\<open>string\<close>, one \<^typ>\<open>char\<close> per Python character, so the
    model covers the texts whose characters lie in the range of \<^typ>\<open>char\<close>.
    The fixed user-interface texts of the source (which are Chinese) are not spelled
    out: every such literal or f-string template is a constructor of a datatype, and
    the comment at the constructor quotes the place it stands for.
  \<^item> A Python \<^verbatim>\<open>float\<close> (clock readings, progress counts) is a \<^typ>\<open>real\<close>.
  \<^item> An exception is a value of \<open>exn\<close>; a computation that may raise returns
    \<open>exn + 'a\<close> with \<open>Inl\<close> for the exception.
\<close>

datatype exn =
    GitCommandError string   \<comment> \<open>\<^verbatim>\<open>git.GitCommandError\<close>, with its \<^verbatim>\<open>str(e)\<close>\<close>
  | OtherException string    \<comment> \<open>any other subclass of \<^verbatim>\<open>Exception\<close>, with its \<^verbatim>\<open>str(e)\<close>\<close>

fun str_exn :: "exn \<Rightarrow> string" where
  "str_exn (GitCommandError s) = s"
| "str_exn (OtherException s) = s"

text \<open>The arguments a worker is created with: the callers pass strings and booleans.\<close>

datatype pyval = PStr string | PBool bool

fun truthy :: "pyval \<Rightarrow> bool" where
  "truthy (PStr s) = (s \<noteq> [])"
| "truthy (PBool b) = b"

text \<open>\<^verbatim>\<open>args[i]\<close> on the argument tuple: an index out of range raises \<^verbatim>\<open>IndexError\<close>.\<close>

definition arg :: "pyval list \<Rightarrow> nat \<Rightarrow> exn + pyval" where
  "arg args i =
     (if i < length args then Inr (args ! i)
      else Inl (OtherException ''tuple index out of range''))"

subsection \<open>String operations\<close>

text \<open>\<^verbatim>\<open>str.isspace\<close> on one character, for the characters of \<^typ>\<open>char\<close>.\<close>

definition py_isspace :: "char \<Rightarrow> bool" where
  "py_isspace c =
     ((of_char c :: nat) \<in> {9, 10, 11, 12, 13, 28, 29, 30, 31, 32, 133, 160})"

definition strip :: "string \<Rightarrow> string" where
  "strip s = rev (dropWhile py_isspace (rev (dropWhile py_isspace s)))"

definition startswith :: "string \<Rightarrow> string \<Rightarrow> bool" where
  "startswith s p = (take (length p) s = p)"

text \<open>\<^verbatim>\<open>needle in haystack\<close>.\<close>

fun contains :: "string \<Rightarrow> string \<Rightarrow> bool" where
  "contains [] needle = (needle = [])"
| "contains (c # cs) needle = (startswith (c # cs) needle \<or> contains cs needle)"

text \<open>\<^verbatim>\<open>s.split(sep)\<close> for a one-character separator, and \<^verbatim>\<open>sep.join(parts)\<close>.\<close>

fun split_on :: "char \<Rightarrow> string \<Rightarrow> string list" where
  "split_on sep [] = [[]]"
| "split_on sep (c # cs) =
     (if c = sep then [] # split_on sep cs
      else (case split_on sep cs of
              [] \<Rightarrow> [[c]]
            | p # ps \<Rightarrow> (c # p) # ps))"

fun join :: "string \<Rightarrow> string list \<Rightarrow> string" where
  "join sep [] = []"
| "join sep [x] = x"
| "join sep (x # y # ys) = x @ sep @ join sep (y # ys)"

section \<open>The status operation: parsing porcelain lines\<close>

text \<open>
  \<^verbatim>\<open>GitWorker.run\<close>, branch \<^verbatim>\<open>"status"\<close>. The category labels and glyphs of the source
  are fixed texts; the constructors stand for them in the order of the source:
  \<open>Untracked\<close> for the label of \<^verbatim>\<open>??\<close> lines, \<open>Staged\<close> for code \<^verbatim>\<open>A\<close>, \<open>Modified\<close> for
  \<^verbatim>\<open>M\<close>, \<open>Deleted\<close> for \<^verbatim>\<open>D\<close>, \<open>Unstaged\<close> for the final \<^verbatim>\<open>else\<close>.
\<close>

datatype category = Untracked | Staged | Modified | Deleted | Unstaged

datatype glyph = PlusGlyph | CheckGlyph | MemoGlyph | CrossGlyph

type_synonym status_row = "category \<times> string \<times> glyph"

text \<open>
  The body of the loop for one line that passed \<^verbatim>\<open>if line.strip()\<close>. \<^verbatim>\<open>line[0]\<close> raises
  \<^verbatim>\<open>IndexError\<close> on an empty string; slices never raise.
\<close>

definition status_entry :: "string \<Rightarrow> exn + status_row" where
  "status_entry line =
     (if startswith line ''??'' then Inr (Untracked, drop 3 line, PlusGlyph)
      else (case line of
              [] \<Rightarrow> Inl (OtherException ''string index out of range'')
            | code # _ \<Rightarrow>
                (let file_path = drop 3 line in
                 if code = CHR ''A'' then Inr (Staged, file_path, CheckGlyph)
                 else if code = CHR ''M'' then Inr (Modified, file_path, MemoGlyph)
                 else if code = CHR ''D'' then Inr (Deleted, file_path, CrossGlyph)
                 else Inr (Unstaged, file_path, MemoGlyph))))"

text \<open>The loop over \<^verbatim>\<open>git_status.split('\n')\<close>, appending to \<^verbatim>\<open>status_result\<close>.\<close>

fun status_loop :: "string list \<Rightarrow> status_row list \<Rightarrow> exn + status_row list" where
  "status_loop [] status_result = Inr status_result"
| "status_loop (line # rest) status_result =
     (if strip line \<noteq> [] then
        (case status_entry line of
           Inl e \<Rightarrow> Inl e
         | Inr row \<Rightarrow> status_loop rest (status_result @ [row]))
      else status_loop rest status_result)"

definition parse_status :: "string \<Rightarrow> exn + status_row list" where
  "parse_status git_status = status_loop (split_on CHR 0x0A git_status) []"

section \<open>The progress handler\<close>

text \<open>
  \<^verbatim>\<open>GitProgressHandler.update(op_code, cur_count, max_count=None, message='')\<close>.
  GitPython calls it back during a push or a pull; the arguments of one call are a
  \<open>progress_call\<close>. The handler's only state is \<^verbatim>\<open>last_update\<close>, set to \<^verbatim>\<open>0\<close> by the
  constructor. \<^verbatim>\<open>time.time()\<close> is an input of the model: each call comes with the clock
  reading (in seconds) it takes.

  The three texts sent on the progress signal: the message itself, the template with
  \<^verbatim>\<open>{percentage:.1f}%\<close> (the constructor carries \<^verbatim>\<open>percentage\<close>, the number the
  template prints to one decimal place), and the fixed in-progress text.
\<close>

record progress_call =
  op_code :: int
  cur_count :: real
  max_count :: "real option"
  message :: string

datatype progress_text =
    ProgressMessage string
  | ProgressPercent real
  | ProgressBusy

text \<open>
  \<open>update last_update current_time c\<close> returns what is emitted and the new value of
  \<^verbatim>\<open>last_update\<close>. \<^verbatim>\<open>max_count and max_count > 0\<close>: \<^verbatim>\<open>None\<close> and \<^verbatim>\<open>0\<close> are falsy.
\<close>

definition update :: "real \<Rightarrow> real \<Rightarrow> progress_call \<Rightarrow> progress_text list \<times> real" where
  "update last_update current_time c =
     (if current_time - last_update > 0.5 \<or> message c \<noteq> [] then
        ((if message c \<noteq> [] then [ProgressMessage (message c)]
          else (case max_count c of
                  None \<Rightarrow> [ProgressBusy]
                | Some m \<Rightarrow>
                    if m \<noteq> 0 \<and> m > 0 then [ProgressPercent ((cur_count c / m) * 100)]
                    else [ProgressBusy])),
         current_time)
      else ([], last_update))"

text \<open>
  A sequence of calls on one handler: the emissions of each call, in order, and the
  value of \<^verbatim>\<open>last_update\<close> at the end.
\<close>

fun updates :: "real \<Rightarrow> (real \<times> progress_call) list \<Rightarrow> progress_text list list" where
  "updates last_update [] = []"
| "updates last_update ((current_time, c) # rest) =
     fst (update last_update current_time c)
       # updates (snd (update last_update current_time c)) rest"

fun last_update_after :: "real \<Rightarrow> (real \<times> progress_call) list \<Rightarrow> real" where
  "last_update_after last_update [] = last_update"
| "last_update_after last_update ((current_time, c) # rest) =
     last_update_after (snd (update last_update current_time c)) rest"

section \<open>Signals and results of a worker\<close>

text \<open>
  What GitPython hands back: a commit with the attributes the worker reads
  (\<open>committed_text\<close> is \<^verbatim>\<open>committed_datetime.strftime("%Y-%m-%d %H:%M")\<close>, \<open>parents\<close>
  the \<^verbatim>\<open>hexsha\<close> of each parent in order), and an entry of a diff.
\<close>

record commit_obj =
  hexsha :: string
  summary :: string
  author_name :: string
  committed_text :: string
  parents :: "string list"

record diff_item =
  a_path :: "string option"
  b_path :: "string option"
  change_type :: string

text \<open>The dictionaries the worker builds.\<close>

record commit_info =
  ci_hash :: string
  ci_message :: string
  ci_author :: string
  ci_date :: string
  ci_full_hash :: string

record branch_info =
  local_branches :: "string list"
  remote_branches :: "string list"
  active_branch :: "string option"

text \<open>
  The \<^verbatim>\<open>'diff'\<close> entry of a changed file: the text git returned, or the placeholder
  f-string of the \<^verbatim>\<open>except\<close> branch, which carries \<^verbatim>\<open>str(e)\<close>.
\<close>

datatype diff_text = DiffText string | DiffUnavailable string

record file_info =
  fi_path :: "string option"
  fi_change_type :: string
  fi_diff :: diff_text

text \<open>
  The confirmation texts, one constructor per literal or f-string of
  \<^verbatim>\<open>GitWorker.run\<close>, carrying the values the f-string interpolates.
\<close>

datatype confirmation =
    AllStaged                          \<comment> \<open>add\<close>
  | Committed pyval                    \<comment> \<open>commit: the message\<close>
  | Pushed                             \<comment> \<open>push\<close>
  | PushedUpstream string              \<comment> \<open>push\_with\_upstream: the current branch\<close>
  | Pulled                             \<comment> \<open>pull\<close>
  | CheckedOutTracking pyval pyval     \<comment> \<open>checkout -b: new branch, remote branch\<close>
  | CheckedOut pyval                   \<comment> \<open>checkout\<close>
  | BranchCreated pyval                \<comment> \<open>create\_branch\<close>
  | Merged pyval                       \<comment> \<open>merge\<close>
  | CherryPicked string                \<comment> \<open>cherry\_pick: the first seven characters of the hash\<close>
  | ChangesDiscarded pyval             \<comment> \<open>checkout\_file\<close>
  | RemoteAdded pyval pyval            \<comment> \<open>add\_remote: name, url\<close>
  | BranchForceDeleted pyval           \<comment> \<open>delete\_branch with force\<close>
  | BranchDeleted pyval                \<comment> \<open>delete\_branch without force\<close>

datatype result =
    StatusResult "status_row list"
  | LogResult "commit_info list"
  | BranchesResult branch_info
  | Confirmation confirmation
  | CommitDetail commit_info "file_info list"
  | DiffResult string

text \<open>
  The text of an error signal: \<^verbatim>\<open>str(e)\<close>, or the hint the push branch builds when the
  active branch has no upstream (an f-string carrying the branch name).
\<close>

datatype error_text = Raw string | NoUpstreamHint string

datatype signal =
    Result result
  | Error error_text
  | Progress progress_text


subsection \<open>Running code that emits signals and may raise\<close>

text \<open>
  A piece of \<^verbatim>\<open>run\<close> is an \<open>action\<close>: the signals it emitted, in order, and then either
  the exception that ended it or its value.
\<close>

type_synonym 'a action = "signal list \<times> (exn + 'a)"

definition call :: "exn + 'a \<Rightarrow> 'a action" where
  "call r = ([], r)"

definition emit :: "signal \<Rightarrow> unit action" where
  "emit s = ([s], Inr ())"

definition and_then :: "'a action \<Rightarrow> ('a \<Rightarrow> 'b action) \<Rightarrow> 'b action" where
  "and_then m f =
     (case m of
        (out, Inl e) \<Rightarrow> (out, Inl e)
      | (out, Inr x) \<Rightarrow> (case f x of (out', r) \<Rightarrow> (out @ out', r)))"

text \<open>\<^verbatim>\<open>try: m  except GitCommandError as e: h e\<close>: other exceptions pass through.\<close>

definition except_GitCommandError :: "'a action \<Rightarrow> (exn \<Rightarrow> 'a action) \<Rightarrow> 'a action" where
  "except_GitCommandError m h =
     (case m of
        (out, Inl (GitCommandError s)) \<Rightarrow>
          (case h (GitCommandError s) of (out', r) \<Rightarrow> (out @ out', r))
      | (out, Inl (OtherException s)) \<Rightarrow> (out, Inl (OtherException s))
      | (out, Inr x) \<Rightarrow> (out, Inr x))"

text \<open>
  A network call given a fresh \<^verbatim>\<open>GitProgressHandler(self.signals)\<close>: GitPython makes the
  callbacks, the handler emits what the throttle lets through, then the call ends.
\<close>

definition with_progress :: "(real \<times> progress_call) list \<times> (exn + 'a) \<Rightarrow> 'a action" where
  "with_progress answer =
     (case answer of (calls, r) \<Rightarrow> (map Progress (concat (updates 0 calls)), r))"

section \<open>The worker\<close>

subsection \<open>GitPython as seen from one run\<close>

text \<open>
  The worker reaches git only through GitPython. A \<open>backend\<close> holds the answer of every
  call one run can make: the value returned, or the exception raised. Calls that take
  arguments are functions of them, so the arguments the worker passes are visible in
  what it gets back. The two network calls also make progress callbacks before they
  end; their answers carry the callbacks with the clock reading of each.
\<close>

record backend =
  open_repo :: "exn + unit"
    \<comment> \<open>\<^verbatim>\<open>Repo(self.repo_path)\<close>\<close>
  git_status :: "exn + string"
    \<comment> \<open>\<^verbatim>\<open>repo.git.status('--porcelain')\<close>\<close>
  iter_commits :: "exn + commit_obj list"
    \<comment> \<open>\<^verbatim>\<open>list(repo.iter_commits(max_count=20))\<close>\<close>
  branch_names :: "exn + string list"
    \<comment> \<open>\<^verbatim>\<open>[branch.name for branch in repo.branches]\<close>\<close>
  active_branch_name :: "exn + string"
    \<comment> \<open>\<^verbatim>\<open>repo.active_branch.name\<close>\<close>
  remote_ref_names :: "string list"
    \<comment> \<open>\<^verbatim>\<open>ref.name\<close> for the refs of the remotes, in order, up to the end of the iteration
       or to the exception that the inner \<^verbatim>\<open>try\<close> of the branches operation swallows\<close>
  git_add :: "exn + unit"
    \<comment> \<open>\<^verbatim>\<open>repo.git.add('.')\<close>\<close>
  git_commit :: "pyval \<Rightarrow> exn + unit"
    \<comment> \<open>\<^verbatim>\<open>repo.git.commit('-m', message)\<close>\<close>
  git_config :: "string \<Rightarrow> string \<Rightarrow> exn + unit"
    \<comment> \<open>\<^verbatim>\<open>repo.git.config(key, value)\<close>\<close>
  remote_origin :: "exn + unit"
    \<comment> \<open>\<^verbatim>\<open>repo.remote(name='origin')\<close>\<close>
  origin_push :: "string option \<Rightarrow> (real \<times> progress_call) list \<times> (exn + unit)"
    \<comment> \<open>\<^verbatim>\<open>origin.push(progress=...)\<close> for \<open>None\<close>;
       \<^verbatim>\<open>origin.push(refspec=..., set_upstream=True, progress=...)\<close> for \<open>Some refspec\<close>\<close>
  origin_pull :: "(string \<rightharpoonup> pyval) \<Rightarrow> (real \<times> progress_call) list \<times> (exn + unit)"
    \<comment> \<open>\<^verbatim>\<open>origin.pull(**pull_kwargs)\<close>, the keyword arguments but \<^verbatim>\<open>progress\<close>\<close>
  git_checkout :: "pyval list \<Rightarrow> exn + unit"
    \<comment> \<open>\<^verbatim>\<open>repo.git.checkout(...)\<close>\<close>
  git_merge :: "pyval \<Rightarrow> exn + unit"
    \<comment> \<open>\<^verbatim>\<open>repo.git.merge(branch_name)\<close>\<close>
  git_cherry_pick :: "pyval \<Rightarrow> exn + unit"
    \<comment> \<open>\<^verbatim>\<open>repo.git.cherry_pick(commit_hash)\<close>\<close>
  lookup_commit :: "pyval \<Rightarrow> exn + commit_obj"
    \<comment> \<open>\<^verbatim>\<open>repo.commit(commit_hash)\<close>\<close>
  commit_diff :: "commit_obj \<Rightarrow> string option \<Rightarrow> exn + diff_item list"
    \<comment> \<open>\<^verbatim>\<open>commit.diff(commit.parents[0])\<close> for \<open>Some\<close> of the first parent's hash;
       \<^verbatim>\<open>commit.diff()\<close> for \<open>None\<close>, which in GitPython compares the commit with the
       index (the default of its \<^verbatim>\<open>other\<close> argument)\<close>
  git_diff_commits :: "string \<Rightarrow> string \<Rightarrow> string option \<Rightarrow> exn + string"
    \<comment> \<open>\<^verbatim>\<open>repo.git.diff(parent_hexsha, hexsha, '--', path)\<close>\<close>
  git_show :: "string \<Rightarrow> exn + string"
    \<comment> \<open>\<^verbatim>\<open>repo.git.show(spec)\<close>\<close>
  git_diff_head :: "pyval \<Rightarrow> exn + string"
    \<comment> \<open>\<^verbatim>\<open>repo.git.diff('HEAD', '--', file_path)\<close>\<close>
  create_remote :: "pyval \<Rightarrow> pyval \<Rightarrow> exn + unit"
    \<comment> \<open>\<^verbatim>\<open>repo.create_remote(remote_name, remote_url)\<close>\<close>
  git_branch :: "string \<Rightarrow> pyval \<Rightarrow> exn + unit"
    \<comment> \<open>\<^verbatim>\<open>repo.git.branch(flag, branch_name)\<close>\<close>

subsection \<open>The branches of \<^verbatim>\<open>GitWorker.run\<close>\<close>

definition run_status :: "backend \<Rightarrow> unit action" where
  "run_status b =
     and_then (call (git_status b)) (\<lambda>out.
     and_then (call (parse_status out)) (\<lambda>status_result.
     emit (Result (StatusResult status_result))))"

definition log_entry :: "commit_obj \<Rightarrow> commit_info" where
  "log_entry c =
     \<lparr>ci_hash = take 7 (hexsha c), ci_message = summary c, ci_author = author_name c,
      ci_date = committed_text c, ci_full_hash = hexsha c\<rparr>"

definition run_log :: "backend \<Rightarrow> unit action" where
  "run_log b =
     and_then (call (iter_commits b)) (\<lambda>commits.
     emit (Result (LogResult (map log_entry commits))))"

definition endswith :: "string \<Rightarrow> string \<Rightarrow> bool" where
  "endswith s suffix = startswith (rev s) (rev suffix)"

text \<open>The two nested tests on \<^verbatim>\<open>ref.name\<close> in the remote loop.\<close>

definition keeps_remote_ref :: "string \<Rightarrow> bool" where
  "keeps_remote_ref name =
     (\<not> endswith name ''/HEAD'' \<and> contains name ''/'' \<and> \<not> startswith name ''origin/HEAD'')"

definition run_branches :: "backend \<Rightarrow> unit action" where
  "run_branches b =
     and_then (call (branch_names b)) (\<lambda>locals.
     and_then (call (active_branch_name b)) (\<lambda>active.
     emit (Result (BranchesResult
       \<lparr>local_branches = locals,
        remote_branches = filter keeps_remote_ref (remote_ref_names b),
        active_branch = Some active\<rparr>))))"

definition run_add :: "backend \<Rightarrow> unit action" where
  "run_add b =
     and_then (call (git_add b)) (\<lambda>_. emit (Result (Confirmation AllStaged)))"

text \<open>\<^verbatim>\<open>message = self.args[0] if self.args else "Update"\<close>.\<close>

definition commit_message :: "pyval list \<Rightarrow> pyval" where
  "commit_message args = (case args of [] \<Rightarrow> PStr ''Update'' | a # _ \<Rightarrow> a)"

definition run_commit :: "backend \<Rightarrow> pyval list \<Rightarrow> unit action" where
  "run_commit b args =
     (let msg = commit_message args in
      and_then (call (git_commit b msg)) (\<lambda>_.
      emit (Result (Confirmation (Committed msg)))))"

text \<open>The two \<^verbatim>\<open>repo.git.config\<close> calls that open push, push\_with\_upstream and pull.\<close>

definition set_transport_limits :: "backend \<Rightarrow> unit action" where
  "set_transport_limits b =
     and_then (call (git_config b ''http.lowSpeedLimit'' ''1000'')) (\<lambda>_.
     call (git_config b ''http.lowSpeedTime'' ''30''))"

definition run_push :: "backend \<Rightarrow> unit action" where
  "run_push b =
     and_then (set_transport_limits b) (\<lambda>_.
     and_then (call (remote_origin b)) (\<lambda>_.
     except_GitCommandError
       (and_then (with_progress (origin_push b None)) (\<lambda>_.
        emit (Result (Confirmation Pushed))))
       (\<lambda>e. if contains (str_exn e) ''has no upstream branch'' then
               and_then (call (active_branch_name b)) (\<lambda>current_branch.
               emit (Error (NoUpstreamHint current_branch)))
             else emit (Error (Raw (str_exn e))))))"

definition run_push_with_upstream :: "backend \<Rightarrow> unit action" where
  "run_push_with_upstream b =
     and_then (set_transport_limits b) (\<lambda>_.
     and_then (call (remote_origin b)) (\<lambda>_.
     and_then (call (active_branch_name b)) (\<lambda>current_branch.
     except_GitCommandError
       (and_then (with_progress (origin_push b (Some (current_branch @ '':'' @ current_branch))))
          (\<lambda>_. emit (Result (Confirmation (PushedUpstream current_branch)))))
       (\<lambda>e. emit (Error (Raw (str_exn e)))))))"

text \<open>
  The pull options:
  \<^verbatim>\<open>rebase = self.args[0] if len(self.args) > 0 else True\<close>,
  \<^verbatim>\<open>prune = self.args[1] if len(self.args) > 1 else True\<close>, and the dictionary
  \<^verbatim>\<open>pull_kwargs = {'rebase': rebase}\<close>, which gets \<^verbatim>\<open>'prune'\<close> only \<^verbatim>\<open>if prune\<close>.
\<close>

definition pull_rebase :: "pyval list \<Rightarrow> pyval" where
  "pull_rebase args = (if length args > 0 then args ! 0 else PBool True)"

definition pull_prune :: "pyval list \<Rightarrow> pyval" where
  "pull_prune args = (if length args > 1 then args ! 1 else PBool True)"

definition pull_kwargs :: "pyval list \<Rightarrow> (string \<rightharpoonup> pyval)" where
  "pull_kwargs args =
     (let rebase = pull_rebase args; prune = pull_prune args;
          kwargs = [''rebase'' \<mapsto> rebase]
      in if truthy prune then kwargs(''prune'' \<mapsto> prune) else kwargs)"

definition run_pull :: "backend \<Rightarrow> pyval list \<Rightarrow> unit action" where
  "run_pull b args =
     and_then (set_transport_limits b) (\<lambda>_.
     and_then (call (remote_origin b)) (\<lambda>_.
     and_then (with_progress (origin_pull b (pull_kwargs args))) (\<lambda>_.
     emit (Result (Confirmation Pulled)))))"

definition run_checkout :: "backend \<Rightarrow> pyval list \<Rightarrow> unit action" where
  "run_checkout b args =
     (if length args = 3 \<and> args ! 0 = PStr ''-b'' then
        (let branch_name = args ! 1; remote_branch = args ! 2 in
         and_then (call (git_checkout b [PStr ''-b'', branch_name, remote_branch])) (\<lambda>_.
         emit (Result (Confirmation (CheckedOutTracking branch_name remote_branch)))))
      else
        and_then (call (arg args 0)) (\<lambda>branch_name.
        and_then (call (git_checkout b [branch_name])) (\<lambda>_.
        emit (Result (Confirmation (CheckedOut branch_name))))))"

definition run_create_branch :: "backend \<Rightarrow> pyval list \<Rightarrow> unit action" where
  "run_create_branch b args =
     and_then (call (arg args 0)) (\<lambda>branch_name.
     and_then (call (git_checkout b [PStr ''-b'', branch_name])) (\<lambda>_.
     emit (Result (Confirmation (BranchCreated branch_name)))))"

definition run_merge :: "backend \<Rightarrow> pyval list \<Rightarrow> unit action" where
  "run_merge b args =
     and_then (call (arg args 0)) (\<lambda>branch_name.
     and_then (call (git_merge b branch_name)) (\<lambda>_.
     emit (Result (Confirmation (Merged branch_name)))))"

text \<open>\<^verbatim>\<open>commit_hash[:7]\<close>: slicing a value that is not a string raises \<^verbatim>\<open>TypeError\<close>.\<close>

fun first7 :: "pyval \<Rightarrow> exn + string" where
  "first7 (PStr s) = Inr (take 7 s)"
| "first7 (PBool v) = Inl (OtherException (CHR 0x27 # ''bool'' @ CHR 0x27 # '' object is not subscriptable''))"

definition run_cherry_pick :: "backend \<Rightarrow> pyval list \<Rightarrow> unit action" where
  "run_cherry_pick b args =
     and_then (call (arg args 0)) (\<lambda>commit_hash.
     and_then (call (git_cherry_pick b commit_hash)) (\<lambda>_.
     and_then (call (first7 commit_hash)) (\<lambda>short.
     emit (Result (Confirmation (CherryPicked short))))))"

text \<open>
  The show\_commit branch. \<^verbatim>\<open>diff_item.b_path or diff_item.a_path\<close> takes \<^verbatim>\<open>b_path\<close>
  unless it is \<^verbatim>\<open>None\<close> or empty; an f-string prints \<^verbatim>\<open>None\<close> as the text \<^verbatim>\<open>None\<close>.
\<close>

definition item_path :: "diff_item \<Rightarrow> string option" where
  "item_path d =
     (case b_path d of
        None \<Rightarrow> a_path d
      | Some p \<Rightarrow> if p \<noteq> [] then Some p else a_path d)"

definition fmt_path :: "string option \<Rightarrow> string" where
  "fmt_path p = (case p of None \<Rightarrow> ''None'' | Some s \<Rightarrow> s)"

text \<open>
  The \<^verbatim>\<open>try\<close> of the loop body: the text for one changed file, from \<^verbatim>\<open>git diff\<close> between
  the first parent and the commit when \<^verbatim>\<open>commit.parents\<close> is not empty, from
  \<^verbatim>\<open>git show hexsha:path\<close> otherwise.
\<close>

definition diff_content :: "backend \<Rightarrow> commit_obj \<Rightarrow> diff_item \<Rightarrow> exn + string" where
  "diff_content b commit d =
     (case parents commit of
        p # _ \<Rightarrow> git_diff_commits b p (hexsha commit) (item_path d)
      | [] \<Rightarrow> git_show b (hexsha commit @ '':'' @ fmt_path (item_path d)))"

text \<open>The loop body with its \<^verbatim>\<open>except Exception\<close>: both branches build an entry.\<close>

definition file_entry :: "backend \<Rightarrow> commit_obj \<Rightarrow> diff_item \<Rightarrow> file_info" where
  "file_entry b commit d =
     (case diff_content b commit d of
        Inr text \<Rightarrow>
          \<lparr>fi_path = item_path d, fi_change_type = change_type d, fi_diff = DiffText text\<rparr>
      | Inl e \<Rightarrow>
          \<lparr>fi_path = item_path d, fi_change_type = change_type d,
           fi_diff = DiffUnavailable (str_exn e)\<rparr>)"

fun files_loop :: "backend \<Rightarrow> commit_obj \<Rightarrow> diff_item list \<Rightarrow> file_info list \<Rightarrow> file_info list" where
  "files_loop b commit [] files_changed = files_changed"
| "files_loop b commit (d # rest) files_changed =
     files_loop b commit rest (files_changed @ [file_entry b commit d])"

definition run_show_commit :: "backend \<Rightarrow> pyval list \<Rightarrow> unit action" where
  "run_show_commit b args =
     and_then (call (arg args 0)) (\<lambda>commit_hash.
     and_then (call (lookup_commit b commit_hash)) (\<lambda>commit.
     and_then (call (commit_diff b commit
                       (case parents commit of [] \<Rightarrow> None | p # _ \<Rightarrow> Some p))) (\<lambda>diff.
     emit (Result (CommitDetail (log_entry commit) (files_loop b commit diff []))))))"

definition run_diff :: "backend \<Rightarrow> pyval list \<Rightarrow> unit action" where
  "run_diff b args =
     and_then (call (arg args 0)) (\<lambda>file_path.
     and_then (call (git_diff_head b file_path)) (\<lambda>text.
     emit (Result (DiffResult text))))"

definition run_checkout_file :: "backend \<Rightarrow> pyval list \<Rightarrow> unit action" where
  "run_checkout_file b args =
     and_then (call (arg args 0)) (\<lambda>file_path.
     and_then (call (git_checkout b [PStr ''--'', file_path])) (\<lambda>_.
     emit (Result (Confirmation (ChangesDiscarded file_path)))))"

definition run_add_remote :: "backend \<Rightarrow> pyval list \<Rightarrow> unit action" where
  "run_add_remote b args =
     and_then (call (arg args 0)) (\<lambda>remote_name.
     and_then (call (arg args 1)) (\<lambda>remote_url.
     and_then (call (create_remote b remote_name remote_url)) (\<lambda>_.
     emit (Result (Confirmation (RemoteAdded remote_name remote_url))))))"

definition run_delete_branch :: "backend \<Rightarrow> pyval list \<Rightarrow> unit action" where
  "run_delete_branch b args =
     and_then (call (arg args 0)) (\<lambda>branch_name.
     (let force = (if length args > 1 then args ! 1 else PBool False) in
      if truthy force then
        and_then (call (git_branch b ''-D'' branch_name)) (\<lambda>_.
        emit (Result (Confirmation (BranchForceDeleted branch_name))))
      else
        and_then (call (git_branch b ''-d'' branch_name)) (\<lambda>_.
        emit (Result (Confirmation (BranchDeleted branch_name))))))"

subsection \<open>\<^verbatim>\<open>GitWorker.run\<close>\<close>

text \<open>
  The \<^verbatim>\<open>if\<close>/\<^verbatim>\<open>elif\<close> chain on \<^verbatim>\<open>self.operation\<close>, in the order of the source. There is no
  final \<^verbatim>\<open>else\<close>: an operation the chain does not name does nothing. The timing
  \<^verbatim>\<open>print\<close>s around the chain are left out.
\<close>

definition dispatch :: "backend \<Rightarrow> string \<Rightarrow> pyval list \<Rightarrow> unit action" where
  "dispatch b op args =
     (if op = ''status'' then run_status b
      else if op = ''log'' then run_log b
      else if op = ''branches'' then run_branches b
      else if op = ''add'' then run_add b
      else if op = ''commit'' then run_commit b args
      else if op = ''push'' then run_push b
      else if op = ''push_with_upstream'' then run_push_with_upstream b
      else if op = ''pull'' then run_pull b args
      else if op = ''checkout'' then run_checkout b args
      else if op = ''create_branch'' then run_create_branch b args
      else if op = ''merge'' then run_merge b args
      else if op = ''cherry_pick'' then run_cherry_pick b args
      else if op = ''show_commit'' then run_show_commit b args
      else if op = ''diff'' then run_diff b args
      else if op = ''checkout_file'' then run_checkout_file b args
      else if op = ''add_remote'' then run_add_remote b args
      else if op = ''delete_branch'' then run_delete_branch b args
      else ([], Inr ()))"


text \<open>
  A worker as \<^verbatim>\<open>GitWorker.__init__\<close> stores it. \<^verbatim>\<open>repo_path\<close> is
  \<^verbatim>\<open>self.current_repo_path\<close> of the manager, which may be \<^verbatim>\<open>None\<close>.
\<close>

record worker =
  repo_path :: "string option"
  operation :: string
  args :: "pyval list"

text \<open>
  \<^verbatim>\<open>run\<close>: the whole body is inside \<^verbatim>\<open>try ... except Exception as e:
  self.signals.error.emit(str(e))\<close>. The value is the sequence of signals emitted.
\<close>

definition run :: "backend \<Rightarrow> worker \<Rightarrow> signal list" where
  "run b w =
     (case and_then (call (open_repo b)) (\<lambda>_. dispatch b (operation w) (args w)) of
        (out, Inl e) \<Rightarrow> out @ [Error (Raw (str_exn e))]
      | (out, Inr _) \<Rightarrow> out)"

section \<open>The manager\<close>

text \<open>
  \<^verbatim>\<open>GitManager\<close> is the window. Of its state the model keeps what decides whether and
  how a worker is started: the selected repository (\<^verbatim>\<open>current_repo_path\<close> and the
  \<^verbatim>\<open>Repo\<close> object \<^verbatim>\<open>current_repo\<close>, seen through the two attributes the manager reads),
  the set \<^verbatim>\<open>active_operations\<close>, the items of \<^verbatim>\<open>branch_combo\<close> (text and data of each),
  and the workers handed to \<^verbatim>\<open>self.threadpool.start\<close>, in order. Button states and the
  log window are left out. What the user typed or answered in a dialog is an argument
  of the method. The callbacks connected to a worker's signals run later, when the
  signals arrive; they are not part of starting the worker.
\<close>

record repo_view =
  view_branches :: "exn + string list"
    \<comment> \<open>\<^verbatim>\<open>[branch.name for branch in self.current_repo.branches]\<close>\<close>
  view_active_branch :: "exn + string"
    \<comment> \<open>\<^verbatim>\<open>self.current_repo.active_branch.name\<close>\<close>

record manager =
  current_repo :: "repo_view option"
  current_repo_path :: "string option"
  active_operations :: "string set"
  branch_combo :: "(string \<times> string option) list"
  threadpool :: "worker list"

text \<open>\<^verbatim>\<open>not self.current_repo_path\<close>: \<^verbatim>\<open>None\<close> and the empty string are falsy.\<close>

definition no_repo_path :: "manager \<Rightarrow> bool" where
  "no_repo_path m = (case current_repo_path m of None \<Rightarrow> True | Some p \<Rightarrow> p = [])"

text \<open>\<^verbatim>\<open>worker = GitWorker(self.current_repo_path, operation, *args)\<close> and
  \<^verbatim>\<open>self.threadpool.start(worker)\<close>.\<close>

definition start_worker :: "manager \<Rightarrow> string \<Rightarrow> pyval list \<Rightarrow> manager" where
  "start_worker m op as =
     m\<lparr>threadpool := threadpool m @
          [\<lparr>repo_path = current_repo_path m, operation = op, args = as\<rparr>]\<rparr>"

definition execute_git_task :: "manager \<Rightarrow> string \<Rightarrow> pyval list \<Rightarrow> manager" where
  "execute_git_task m op as = (if no_repo_path m then m else start_worker m op as)"

definition add_operation :: "string \<Rightarrow> manager \<Rightarrow> manager" where
  "add_operation k m = m\<lparr>active_operations := insert k (active_operations m)\<rparr>"

definition discard_operation :: "string \<Rightarrow> manager \<Rightarrow> manager" where
  "discard_operation k m = m\<lparr>active_operations := active_operations m - {k}\<rparr>"

subsection \<open>Error handling\<close>

text \<open>
  \<^verbatim>\<open>handle_git_error\<close> is connected to the error signal of every worker started by
  \<^verbatim>\<open>execute_git_task\<close>. It chooses one of three dialogs by the text of the message, then
  calls \<^verbatim>\<open>reset_all_buttons\<close>, which clears \<^verbatim>\<open>active_operations\<close>.
\<close>

datatype error_kind = CheckoutConflict | NoUpstreamBranch | GenericFailure

definition overwritten_by_checkout :: string where
  "overwritten_by_checkout =
     ''Your local changes to the following files would be overwritten by checkout''"

definition please_commit_or_stash :: string where
  "please_commit_or_stash =
     ''Please commit your changes or stash them before you switch branches''"

definition no_upstream_phrase :: string where
  "no_upstream_phrase = ''has no upstream branch''"

definition classify_error :: "string \<Rightarrow> error_kind" where
  "classify_error error_msg =
     (if contains error_msg overwritten_by_checkout \<and> contains error_msg please_commit_or_stash
      then CheckoutConflict
      else if contains error_msg no_upstream_phrase then NoUpstreamBranch
      else GenericFailure)"

definition handle_git_error :: "manager \<Rightarrow> string \<Rightarrow> error_kind \<times> manager" where
  "handle_git_error m error_msg = (classify_error error_msg, m\<lparr>active_operations := {}\<rparr>)"

subsection \<open>Starting operations\<close>

definition push :: "manager \<Rightarrow> bool \<Rightarrow> manager" where
  "push m set_upstream =
     (if ''push'' \<in> active_operations m then m
      else if no_repo_path m then m
      else execute_git_task (add_operation ''push'' m)
             (if set_upstream then ''push_with_upstream'' else ''push'') [])"

definition pull :: "manager \<Rightarrow> bool \<Rightarrow> bool \<Rightarrow> manager" where
  "pull m rebase prune =
     (if ''pull'' \<in> active_operations m then m
      else if no_repo_path m then m
      else execute_git_task (add_operation ''pull'' m) ''pull'' [PBool rebase, PBool prune])"

text \<open>\<open>typed\<close> is \<^verbatim>\<open>self.commit_message.toPlainText()\<close>.\<close>

definition commit :: "manager \<Rightarrow> string \<Rightarrow> manager" where
  "commit m typed =
     (if ''commit'' \<in> active_operations m then m
      else if strip typed = [] then m
      else execute_git_task (add_operation ''commit'' m) ''commit'' [PStr (strip typed)])"

text \<open>\<^verbatim>\<open>commit_and_push\<close> starts with the add; the rest happens in callbacks.\<close>

definition commit_and_push :: "manager \<Rightarrow> manager" where
  "commit_and_push m =
     (if ''commit_and_push'' \<in> active_operations m then m
      else execute_git_task (add_operation ''commit_and_push'' m) ''add'' [])"

text \<open>\<open>typed\<close> is \<^verbatim>\<open>self.new_branch_input.text()\<close>.\<close>

definition create_branch :: "manager \<Rightarrow> string \<Rightarrow> manager" where
  "create_branch m typed =
     (if ''create_branch'' \<in> active_operations m then m
      else if strip typed = [] then m
      else execute_git_task (add_operation ''create_branch'' m) ''create_branch''
             [PStr (strip typed)])"

text \<open>
  \<open>branch_name\<close> is \<^verbatim>\<open>self.merge_combo.currentText()\<close>, \<open>current_branch\<close> is
  \<^verbatim>\<open>self.branch_combo.currentText()\<close>, \<open>reply_yes\<close> the answer to the confirmation.
\<close>

definition merge_branch :: "manager \<Rightarrow> string \<Rightarrow> string \<Rightarrow> bool \<Rightarrow> manager" where
  "merge_branch m branch_name current_branch reply_yes =
     (if ''merge_branch'' \<in> active_operations m then m
      else if branch_name = [] then m
      else if branch_name = current_branch then m
      else if \<not> reply_yes then discard_operation ''merge_branch'' (add_operation ''merge_branch'' m)
      else execute_git_task (add_operation ''merge_branch'' m) ''merge'' [PStr branch_name])"

definition refresh_status :: "manager \<Rightarrow> manager" where
  "refresh_status m =
     (if ''refresh_status'' \<in> active_operations m then m
      else execute_git_task (add_operation ''refresh_status'' m) ''status'' [])"

definition stage_all :: "manager \<Rightarrow> manager" where
  "stage_all m =
     (if ''stage_all'' \<in> active_operations m then m
      else execute_git_task (add_operation ''stage_all'' m) ''add'' [])"

definition refresh_history :: "manager \<Rightarrow> manager" where
  "refresh_history m = execute_git_task m ''log'' []"

definition refresh_branches :: "manager \<Rightarrow> manager" where
  "refresh_branches m = execute_git_task m ''branches'' []"

text \<open>\<open>full_hash\<close> is \<^verbatim>\<open>commit_data['full_hash']\<close> of the history item.\<close>

definition show_commit_detail :: "manager \<Rightarrow> string \<Rightarrow> manager" where
  "show_commit_detail m full_hash =
     (if ''show_commit'' \<in> active_operations m then m
      else start_worker (add_operation ''show_commit'' m) ''show_commit'' [PStr full_hash])"

text \<open>
  \<^verbatim>\<open>cherry_pick_commit\<close>: \<open>chosen\<close> is the branch picked in the dialog (\<open>None\<close> when the
  dialog was cancelled), \<open>reply_yes\<close> the answer to the
  confirmation. An exception while reading the branches leaves the method before it
  changed anything.
\<close>

definition other_branches :: "repo_view \<Rightarrow> exn + string list" where
  "other_branches v =
     (case view_branches v of
        Inl e \<Rightarrow> Inl e
      | Inr names \<Rightarrow>
          (case view_active_branch v of
             Inl e \<Rightarrow> Inl e
           | Inr current \<Rightarrow> Inr (filter (\<lambda>n. n \<noteq> current) names)))"

definition cherry_pick_commit :: "manager \<Rightarrow> string \<Rightarrow> string option \<Rightarrow> bool \<Rightarrow> manager" where
  "cherry_pick_commit m full_hash chosen reply_yes =
     (if ''cherry_pick'' \<in> active_operations m then m
      else (case current_repo m of
              None \<Rightarrow> m
            | Some v \<Rightarrow>
                (case other_branches v of
                   Inl e \<Rightarrow> m
                 | Inr others \<Rightarrow>
                     if others = [] then m
                     else if chosen = None \<or> chosen = Some [] then m
                     else if \<not> reply_yes then m
                     else execute_git_task (add_operation ''cherry_pick'' m) ''cherry_pick''
                            [PStr full_hash])))"

text \<open>
  \<^verbatim>\<open>delete_branch\<close> tests nothing in \<^verbatim>\<open>active_operations\<close>. \<open>chosen\<close> is the branch picked
  in the dialog (\<open>None\<close> when cancelled); the second dialog has three answers,
  and \<^verbatim>\<open>force = (force_delete == QMessageBox.No)\<close>.
\<close>

datatype delete_answer = AnswerYes | AnswerNo | AnswerCancel

definition delete_branch :: "manager \<Rightarrow> string option \<Rightarrow> delete_answer \<Rightarrow> manager" where
  "delete_branch m chosen answer =
     (if no_repo_path m then m
      else (case current_repo m of
              None \<Rightarrow> m
            | Some v \<Rightarrow>
                (case other_branches v of
                   Inl e \<Rightarrow> m
                 | Inr branches_to_delete \<Rightarrow>
                     if branches_to_delete = [] then m
                     else (case chosen of
                             None \<Rightarrow> m
                           | Some branch_to_delete \<Rightarrow>
                               if branch_to_delete = [] then m
                               else if answer = AnswerCancel then m
                               else start_worker m ''delete_branch''
                                      [PStr branch_to_delete, PBool (answer = AnswerNo)]))))"

text \<open>
  \<^verbatim>\<open>show_file_diff\<close> and \<^verbatim>\<open>show_file_diff_at_row\<close>: \<open>row\<close> is the status and path of the
  table row (\<open>None\<close> when an item is missing). The three labels of the list are those of
  \<open>Unstaged\<close>, \<open>Modified\<close> and \<open>Untracked\<close>.
\<close>

definition show_file_diff :: "manager \<Rightarrow> (category \<times> string) option \<Rightarrow> manager" where
  "show_file_diff m row =
     (case row of
        None \<Rightarrow> m
      | Some (status, file_path) \<Rightarrow>
          if status \<notin> set [Unstaged, Modified, Untracked] then m
          else start_worker m ''diff'' [PStr file_path])"

definition cancel_file_changes :: "manager \<Rightarrow> string \<Rightarrow> bool \<Rightarrow> manager" where
  "cancel_file_changes m file_path reply_yes =
     (if reply_yes then start_worker m ''checkout_file'' [PStr file_path] else m)"

subsection \<open>Switching branches\<close>

text \<open>
  \<^verbatim>\<open>on_branches_result\<close> fills \<^verbatim>\<open>branch_combo\<close> from the result of the branches
  operation: an item per local branch, then, if there are remote branches, a separator
  (no text, no data) and an item per remote branch. The data of an item is the branch
  name; the text is the name behind a label.
\<close>

definition on_branches_result :: "manager \<Rightarrow> branch_info \<Rightarrow> manager" where
  "on_branches_result m r =
     m\<lparr>branch_combo :=
          map (\<lambda>branch. (''localctx: '' @ branch, Some branch)) (local_branches r) @
          (if remote_branches r \<noteq> [] then
             ([], None) # map (\<lambda>branch. (''remote: '' @ branch, Some branch)) (remote_branches r)
           else [])\<rparr>"

text \<open>
  The first loop of \<^verbatim>\<open>switch_branch\<close>: the text of the first item whose data is
  \<^verbatim>\<open>branch_name\<close>, the empty string when there is none.
\<close>

definition combo_text :: "(string \<times> string option) list \<Rightarrow> string \<Rightarrow> string" where
  "combo_text items branch_name =
     (case find (\<lambda>item. snd item = Some branch_name) items of
        None \<Rightarrow> []
      | Some item \<Rightarrow> fst item)"

text \<open>\<^verbatim>\<open>'/'.join(branch_name.split('/')[1:])\<close> if \<^verbatim>\<open>'/' in branch_name\<close>.\<close>

definition actual_branch_name :: "string \<Rightarrow> string" where
  "actual_branch_name branch_name =
     (if contains branch_name ''/'' then join ''/'' (drop 1 (split_on CHR ''/'' branch_name))
      else branch_name)"

text \<open>
  The search for a local branch of that name, inside \<^verbatim>\<open>try ... except: pass\<close>: when
  there is no repository object or reading its branches raises, the flag stays false.
\<close>

definition local_branch_exists :: "repo_view option \<Rightarrow> string \<Rightarrow> bool" where
  "local_branch_exists repo name =
     (case repo of
        None \<Rightarrow> False
      | Some v \<Rightarrow> (case view_branches v of Inl e \<Rightarrow> False | Inr names \<Rightarrow> name \<in> set names))"

definition switch_branch :: "manager \<Rightarrow> string \<Rightarrow> manager" where
  "switch_branch m branch_name =
     (if branch_name = [] then m
      else
        (let text = combo_text (branch_combo m) branch_name;
             m' = add_operation ''switch_branch'' m
         in if startswith text ''remote: '' then
              (let actual = actual_branch_name branch_name in
               if \<not> local_branch_exists (current_repo m') actual then
                 start_worker m' ''checkout'' [PStr ''-b'', PStr actual, PStr branch_name]
               else start_worker m' ''checkout'' [PStr actual])
            else start_worker m' ''checkout'' [PStr branch_name]))"

text \<open>
  \<^verbatim>\<open>on_branch_activated(index)\<close>. \<^verbatim>\<open>itemData\<close> and \<^verbatim>\<open>itemText\<close> of an index past the end give
  \<^verbatim>\<open>None\<close> and the empty string. When the data is missing or empty the text is used,
  cut by \<^verbatim>\<open>[9:]\<close> or \<^verbatim>\<open>[8:]\<close> after a label.
\<close>

definition item_at :: "(string \<times> string option) list \<Rightarrow> int \<Rightarrow> string \<times> string option" where
  "item_at items index =
     (if 0 \<le> index \<and> nat index < length items then items ! nat index else ([], None))"

definition unlabelled :: "string \<Rightarrow> string" where
  "unlabelled text =
     (if startswith text ''localctx: '' then drop 9 text
      else if startswith text ''remote: '' then drop 8 text
      else text)"

definition on_branch_activated :: "manager \<Rightarrow> int \<Rightarrow> manager" where
  "on_branch_activated m index =
     (if ''switch_branch'' \<in> active_operations m then m
      else if index < 0 then m
      else
        (case item_at (branch_combo m) index of
           (text, Some d) \<Rightarrow> switch_branch m (if d \<noteq> [] then d else unlabelled text)
         | (text, None) \<Rightarrow> switch_branch m (unlabelled text)))"

subsection \<open>The actions that start an operation\<close>

text \<open>
  One constructor per method above, with the arguments of the method, so that a
  statement can range over all of them; \<open>submit\<close> calls the method.
\<close>

datatype submission =
    Push bool
  | Pull bool bool
  | Commit string
  | CommitAndPush
  | CreateBranch string
  | MergeBranch string string bool
  | RefreshStatus
  | StageAll
  | RefreshHistory
  | RefreshBranches
  | ShowCommitDetail string
  | CherryPickCommit string "string option" bool
  | BranchActivated int
  | DeleteBranch "string option" delete_answer
  | ShowFileDiff "(category \<times> string) option"
  | CancelFileChanges string bool

fun submit :: "manager \<Rightarrow> submission \<Rightarrow> manager" where
  "submit m (Push set_upstream) = push m set_upstream"
| "submit m (Pull rebase prune) = pull m rebase prune"
| "submit m (Commit typed) = commit m typed"
| "submit m CommitAndPush = commit_and_push m"
| "submit m (CreateBranch typed) = create_branch m typed"
| "submit m (MergeBranch branch_name current_branch reply_yes) =
     merge_branch m branch_name current_branch reply_yes"
| "submit m RefreshStatus = refresh_status m"
| "submit m StageAll = stage_all m"
| "submit m RefreshHistory = refresh_history m"
| "submit m RefreshBranches = refresh_branches m"
| "submit m (ShowCommitDetail full_hash) = show_commit_detail m full_hash"
| "submit m (CherryPickCommit full_hash chosen reply_yes) =
     cherry_pick_commit m full_hash chosen reply_yes"
| "submit m (BranchActivated index) = on_branch_activated m index"
| "submit m (DeleteBranch chosen answer) = delete_branch m chosen answer"
| "submit m (ShowFileDiff row) = show_file_diff m row"
| "submit m (CancelFileChanges file_path reply_yes) = cancel_file_changes m file_path reply_yes"

text \<open>
  The table of deduplication keys as read off the source: the string each method looks
  up in \<^verbatim>\<open>active_operations\<close> before doing anything, \<open>None\<close> for a method that looks
  nothing up. It is stated apart from the methods so that the theorem below compares
  the two.
\<close>

fun guard_key :: "submission \<Rightarrow> string option" where
  "guard_key (Push set_upstream) = Some ''push''"
| "guard_key (Pull rebase prune) = Some ''pull''"
| "guard_key (Commit typed) = Some ''commit''"
| "guard_key CommitAndPush = Some ''commit_and_push''"
| "guard_key (CreateBranch typed) = Some ''create_branch''"
| "guard_key (MergeBranch branch_name current_branch reply_yes) = Some ''merge_branch''"
| "guard_key RefreshStatus = Some ''refresh_status''"
| "guard_key StageAll = Some ''stage_all''"
| "guard_key RefreshHistory = None"
| "guard_key RefreshBranches = None"
| "guard_key (ShowCommitDetail full_hash) = Some ''show_commit''"
| "guard_key (CherryPickCommit full_hash chosen reply_yes) = Some ''cherry_pick''"
| "guard_key (BranchActivated index) = Some ''switch_branch''"
| "guard_key (DeleteBranch chosen answer) = None"
| "guard_key (ShowFileDiff row) = None"
| "guard_key (CancelFileChanges file_path reply_yes) = None"

section \<open>Terminal signals of an action\<close>



section \<open>Sample inputs\<close>

text \<open>Concrete inputs on which the theorems below are instantiated.\<close>

definition sample_calls :: "(real \<times> progress_call) list" where
  "sample_calls =
     [(1000, \<lparr>op_code = 4, cur_count = 50, max_count = Some 100, message = []\<rparr>),
      (1000.1, \<lparr>op_code = 4, cur_count = 60, max_count = Some 100, message = []\<rparr>),
      (1000.2, \<lparr>op_code = 8, cur_count = 0, max_count = None, message = ''done''\<rparr>),
      (1000.9, \<lparr>op_code = 16, cur_count = 3, max_count = None, message = []\<rparr>)]"

definition sample_commit :: commit_obj where
  "sample_commit =
     \<lparr>hexsha = ''1f3a5c7e9b2d'', summary = ''second'', author_name = ''dev'',
      committed_text = ''2024-01-02 10:00'', parents = [''0a1b2c3d4e5f'']\<rparr>"

definition sample_root_commit :: commit_obj where
  "sample_root_commit =
     \<lparr>hexsha = ''0a1b2c3d4e5f'', summary = ''first'', author_name = ''dev'',
      committed_text = ''2024-01-01 09:00'', parents = []\<rparr>"

definition sample_items :: "diff_item list" where
  "sample_items =
     [\<lparr>a_path = Some ''a.txt'', b_path = Some ''a.txt'', change_type = ''M''\<rparr>,
      \<lparr>a_path = Some ''gone.txt'', b_path = None, change_type = ''D''\<rparr>]"

definition sample_backend :: backend where
  "sample_backend =
     \<lparr>open_repo = Inr (),
      git_status = Inr ''?? new.txt'',
      iter_commits = Inr [sample_commit],
      branch_names = Inr [''main''],
      active_branch_name = Inr ''main'',
      remote_ref_names = [''origin/HEAD'', ''origin/main''],
      git_add = Inr (),
      git_commit = (\<lambda>msg. Inr ()),
      git_config = (\<lambda>k v. Inr ()),
      remote_origin = Inr (),
      origin_push = (\<lambda>refspec. (sample_calls, Inl (GitCommandError ''rejected''))),
      origin_pull = (\<lambda>kwargs. (sample_calls, Inr ())),
      git_checkout = (\<lambda>as. Inr ()),
      git_merge = (\<lambda>name. Inr ()),
      git_cherry_pick = (\<lambda>h. Inr ()),
      lookup_commit = (\<lambda>h. Inr sample_commit),
      commit_diff = (\<lambda>c p. Inr sample_items),
      git_diff_commits =
        (\<lambda>p h path. if path = Some ''a.txt'' then Inr ''+line''
                     else Inl (GitCommandError ''bad revision'')),
      git_show = (\<lambda>spec. Inr ''content''),
      git_diff_head = (\<lambda>path. Inr ''+line''),
      create_remote = (\<lambda>name url. Inr ()),
      git_branch = (\<lambda>flag name. Inr ())\<rparr>"

definition sample_manager :: manager where
  "sample_manager =
     \<lparr>current_repo =
        Some \<lparr>view_branches = Inr [''main''], view_active_branch = Inr ''main''\<rparr>,
      current_repo_path = Some ''/work/repo'',
      active_operations = {},
      branch_combo = [],
      threadpool = []\<rparr>"

text \<open>
  The sample manager after a branches result with the given local branches and one
  remote branch, and the sample manager with two operations in flight.
\<close>

definition branches_manager :: "string list \<Rightarrow> manager" where
  "branches_manager locals =
     on_branches_result
       (sample_manager\<lparr>current_repo :=
          Some \<lparr>view_branches = Inr locals, view_active_branch = Inr ''main''\<rparr>\<rparr>)
       \<lparr>local_branches = locals, remote_branches = [''origin/feature-x''],
        active_branch = Some ''main''\<rparr>"

definition push_busy_manager :: manager where
  "push_busy_manager = sample_manager\<lparr>active_operations := {''push'', ''refresh_status''}\<rparr>"

text \<open>
  The sample manager after a branches result in which a local branch has the full name
  of the remote branch.
\<close>

definition shared_name_manager :: manager where
  "shared_name_manager =
     on_branches_result
       (sample_manager\<lparr>current_repo :=
          Some \<lparr>view_branches = Inr [''origin/feature-x'', ''main''],
                view_active_branch = Inr ''main''\<rparr>\<rparr>)
       \<lparr>local_branches = [''origin/feature-x'', ''main''],
        remote_branches = [''origin/feature-x''], active_branch = Some ''main''\<rparr>"

text \<open>
  The sample backend when the commit shown is the first commit of the repository, it is
  checked out and nothing is staged: the commit has no parents, and \<^verbatim>\<open>commit.diff()\<close>
  finds no difference between the commit and the index.
\<close>

definition root_at_head_backend :: backend where
  "root_at_head_backend =
     sample_backend
       \<lparr>lookup_commit := (\<lambda>h. Inr sample_root_commit),
        commit_diff := (\<lambda>c p. case p of None \<Rightarrow> Inr [] | Some q \<Rightarrow> Inr sample_items)\<rparr>"

section \<open>Properties\<close>

subsection \<open>Strings\<close>

lemma startswith_iff: "startswith s p \<longleftrightarrow> (\<exists>t. s = p @ t)"
  unfolding startswith_def
  by (metis append_eq_conv_conj append_take_drop_id)

lemma contains_iff: "contains h n \<longleftrightarrow> (\<exists>p s. h = p @ n @ s)"
proof (induction h)
  case Nil
  show ?case by auto
next
  case (Cons c cs)
  show ?case
  proof
    assume "contains (c # cs) n"
    then consider "startswith (c # cs) n" | "contains cs n" by auto
    then show "\<exists>p s. c # cs = p @ n @ s"
    proof cases
      case 1
      then obtain t where "c # cs = n @ t" using startswith_iff by blast
      then have "c # cs = [] @ n @ t" by simp
      then show ?thesis by blast
    next
      case 2
      then obtain p s where "cs = p @ n @ s" using Cons.IH by blast
      then have "c # cs = (c # p) @ n @ s" by simp
      then show ?thesis by blast
    qed
  next
    assume "\<exists>p s. c # cs = p @ n @ s"
    then obtain p s where e: "c # cs = p @ n @ s" by blast
    show "contains (c # cs) n"
    proof (cases p)
      case Nil
      with e have "startswith (c # cs) n" using startswith_iff by auto
      then show ?thesis by simp
    next
      case (Cons a p')
      with e have "cs = p' @ n @ s" by simp
      then have "contains cs n" using Cons.IH by blast
      then show ?thesis by simp
    qed
  qed
qed

lemma strip_nonempty: "strip line \<noteq> [] \<Longrightarrow> line \<noteq> []"
  by (auto simp: strip_def)

lemma startswith_two_question_marks: "startswith line ''??'' = (take 2 line = ''??'')"
  by (simp add: startswith_def numeral_2_eq_2)

subsection \<open>Status lines\<close>

text \<open>
  C5. For a line that is not blank, the status operation reads the status code from
  the first two characters and the path from offset 3: a line whose first two
  characters are \<^verbatim>\<open>??\<close> is untracked; otherwise the first character of the pair decides,
  \<^verbatim>\<open>A\<close> staged, \<^verbatim>\<open>M\<close> modified, \<^verbatim>\<open>D\<close> deleted, anything else unstaged. The entry never
  raises. The witness instantiates it on \<^verbatim>\<open>?? new.txt\<close> and \<^verbatim>\<open>M  src/a.py\<close>.
\<close>

theorem status_entry_category_and_path:
  assumes "strip line \<noteq> []"
  shows "\<exists>g. status_entry line =
           Inr (if take 2 line = ''??'' then Untracked
                else if take 1 line = ''A'' then Staged
                else if take 1 line = ''M'' then Modified
                else if take 1 line = ''D'' then Deleted
                else Unstaged,
                drop 3 line, g)"
proof -
  from assms obtain c cs where l: "line = c # cs"
    using strip_nonempty by (cases line) auto
  show ?thesis
    unfolding status_entry_def startswith_two_question_marks l
    by (simp add: Let_def)
qed

theorem status_entry_category_and_path_witness:
  "strip ''?? new.txt'' \<noteq> [] \<and> strip ''M  src/a.py'' \<noteq> [] \<and>
   fst (projr (status_entry ''?? new.txt'')) = Untracked \<and>
   fst (snd (projr (status_entry ''?? new.txt''))) = ''new.txt'' \<and>
   fst (projr (status_entry ''M  src/a.py'')) = Modified \<and>
   fst (snd (projr (status_entry ''M  src/a.py''))) = ''src/a.py''"
proof -
  have a: "strip ''?? new.txt'' \<noteq> []" by (simp add: strip_def py_isspace_def)
  have b: "strip ''M  src/a.py'' \<noteq> []" by (simp add: strip_def py_isspace_def)
  from status_entry_category_and_path [OF a] status_entry_category_and_path [OF b] a b
  show ?thesis by auto
qed

text \<open>The loop keeps the non-blank lines, in order, and cannot raise.\<close>

lemma status_entry_never_raises: "strip line \<noteq> [] \<Longrightarrow> \<exists>row. status_entry line = Inr row"
  by (cases line) (auto simp: status_entry_def strip_def Let_def)

lemma status_loop_rows:
  "\<exists>rows. status_loop lines acc = Inr (acc @ rows) \<and>
          map Inr rows = map status_entry (filter (\<lambda>l. strip l \<noteq> []) lines)"
proof (induction lines arbitrary: acc)
  case Nil
  show ?case by simp
next
  case (Cons line rest)
  show ?case
  proof (cases "strip line \<noteq> []")
    case False
    with Cons.IH [of acc] show ?thesis by simp
  next
    case True
    from status_entry_never_raises [OF True]
    obtain row where r: "status_entry line = Inr row" by blast
    from Cons.IH [of "acc @ [row]"] obtain rows where
      "status_loop rest (acc @ [row]) = Inr ((acc @ [row]) @ rows)"
      "map Inr rows = map status_entry (filter (\<lambda>l. strip l \<noteq> []) rest)" by blast
    with True r have
      "status_loop (line # rest) acc = Inr (acc @ (row # rows)) \<and>
       map Inr (row # rows) = map status_entry (filter (\<lambda>l. strip l \<noteq> []) (line # rest))"
      by simp
    then show ?thesis by blast
  qed
qed

subsection \<open>Error classification\<close>

text \<open>
  C4, as the code has it. The dialog of \<^verbatim>\<open>handle_git_error\<close> is chosen by a fixed
  precedence. A message that contains both sentences of git's refusal to overwrite
  local changes on checkout (\<open>overwritten_by_checkout\<close> and \<open>please_commit_or_stash\<close>)
  is a checkout conflict, whatever else it contains, the upstream phrase included;
  failing that, a message that contains \<^verbatim>\<open>has no upstream branch\<close> anywhere is a missing
  upstream, whatever else it contains, the first of the two sentences included; every
  other message gets the generic dialog.
\<close>

theorem classify_error_precedence:
  "fst (handle_git_error m msg) =
     (if (\<exists>p s. msg = p @ overwritten_by_checkout @ s) \<and>
         (\<exists>p s. msg = p @ please_commit_or_stash @ s) then CheckoutConflict
      else if (\<exists>p s. msg = p @ ''has no upstream branch'' @ s) then NoUpstreamBranch
      else GenericFailure)"
  unfolding handle_git_error_def classify_error_def contains_iff no_upstream_phrase_def
  by simp

text \<open>
  C4 as stated fails: a message that says local changes would be overwritten by
  checkout, but lacks the second sentence, is not a checkout conflict. With the upstream
  phrase it is a missing upstream; without it, a generic failure.
\<close>

theorem first_sentence_alone_is_not_a_conflict:
  "fst (handle_git_error sample_manager
          (''error: '' @ overwritten_by_checkout @
           '': a.txt fatal: The current branch dev has no upstream branch.'')) =
     NoUpstreamBranch \<and>
   fst (handle_git_error sample_manager
          (''error: '' @ overwritten_by_checkout @ '': a.txt Aborting'')) = GenericFailure"
  by (simp add: handle_git_error_def classify_error_def overwritten_by_checkout_def
      please_commit_or_stash_def no_upstream_phrase_def startswith_def)

lemma classify_error_upstream_example:
  "classify_error ''fatal: The current branch dev has no upstream branch.'' = NoUpstreamBranch"
  by (simp add: classify_error_def overwritten_by_checkout_def please_commit_or_stash_def
      no_upstream_phrase_def startswith_def)

lemma classify_error_both_example:
  "classify_error
     (''error: '' @ overwritten_by_checkout @ '': a.txt '' @ please_commit_or_stash @
      ''. fatal: The current branch dev has no upstream branch.'') = CheckoutConflict"
proof -
  have "contains
     (''error: '' @ overwritten_by_checkout @ '': a.txt '' @ please_commit_or_stash @
      ''. fatal: The current branch dev has no upstream branch.'') overwritten_by_checkout"
    unfolding contains_iff by blast
  moreover have "contains
     (''error: '' @ overwritten_by_checkout @ '': a.txt '' @ please_commit_or_stash @
      ''. fatal: The current branch dev has no upstream branch.'') please_commit_or_stash"
    unfolding contains_iff
    by (rule exI [of _ "''error: '' @ overwritten_by_checkout @ '': a.txt ''"]) simp
  ultimately show ?thesis by (simp add: classify_error_def)
qed

text \<open>
  The push branch of the worker makes the same test on \<^verbatim>\<open>str(e)\<close> of a
  \<^verbatim>\<open>GitCommandError\<close> and sends its own hint, built from the name of the active branch.
\<close>

lemma push_without_upstream_emits_hint:
  "run (sample_backend\<lparr>origin_push :=
          (\<lambda>refspec. ([], Inl (GitCommandError
             ''fatal: The current branch dev has no upstream branch.'')))\<rparr>)
     \<lparr>repo_path = Some ''/work/repo'', operation = ''push'', args = []\<rparr> =
   [Error (NoUpstreamHint ''main'')]"
  by (simp add: run_def dispatch_def run_push_def set_transport_limits_def and_then_def
      call_def emit_def with_progress_def except_GitCommandError_def sample_backend_def
      startswith_def)

subsection \<open>Commit without a message\<close>

text \<open>
  C9. A commit worker created with no arguments commits with the message \<^verbatim>\<open>Update\<close>:
  once the repository opens, the run is decided by \<^verbatim>\<open>git commit -m Update\<close> alone, and
  its success is reported with that message.
\<close>

theorem commit_without_arguments_uses_Update:
  assumes "open_repo b = Inr ()"
  shows "run b \<lparr>repo_path = p, operation = ''commit'', args = []\<rparr> =
           (case git_commit b (PStr ''Update'') of
              Inl e \<Rightarrow> [Error (Raw (str_exn e))]
            | Inr u \<Rightarrow> [Result (Confirmation (Committed (PStr ''Update'')))])"
  using assms
  by (simp add: run_def dispatch_def run_commit_def commit_message_def and_then_def call_def
      emit_def split: sum.splits)

theorem commit_without_arguments_uses_Update_witness:
  "open_repo sample_backend = Inr () \<and>
   run sample_backend \<lparr>repo_path = Some ''/work/repo'', operation = ''commit'', args = []\<rparr> =
     [Result (Confirmation (Committed (PStr ''Update'')))]"
proof -
  have o: "open_repo sample_backend = Inr ()" by (simp add: sample_backend_def)
  from commit_without_arguments_uses_Update [OF o, of "Some ''/work/repo''"] o
  show ?thesis by (simp add: sample_backend_def)
qed

subsection \<open>The progress throttle\<close>

lemma update_emitted_iff:
  "fst (update l t c) \<noteq> [] \<longleftrightarrow> (t - l > 0.5 \<or> message c \<noteq> [])"
  by (simp add: update_def split: option.splits)

lemma update_snd:
  "snd (update l t c) = (if t - l > 0.5 \<or> message c \<noteq> [] then t else l)"
  by (simp add: update_def)

lemma update_message:
  "message c \<noteq> [] \<Longrightarrow> fst (update l t c) = [ProgressMessage (message c)]"
  by (simp add: update_def)

lemma update_message_free:
  "message c = [] \<Longrightarrow> fst (update l t c) \<noteq> [] \<Longrightarrow>
   fst (update l t c) =
     [case max_count c of
        None \<Rightarrow> ProgressBusy
      | Some m \<Rightarrow> if m > 0 then ProgressPercent (cur_count c / m * 100) else ProgressBusy]"
  by (auto simp: update_def split: option.splits if_splits)

lemma length_updates: "length (updates l calls) = length calls"
  by (induction l calls rule: updates.induct) simp_all

lemma last_update_after_snoc:
  "last_update_after l (calls @ [tc]) =
     snd (update (last_update_after l calls) (fst tc) (snd tc))"
proof (induction calls arbitrary: l)
  case Nil
  show ?case by (cases tc) simp
next
  case (Cons x xs)
  then show ?case by (cases x) simp
qed

text \<open>What call \<open>j\<close> emits is decided by \<^verbatim>\<open>last_update\<close> as the calls before it left it.\<close>

lemma updates_nth:
  "j < length calls \<Longrightarrow>
   updates l calls ! j =
     fst (update (last_update_after l (take j calls)) (fst (calls ! j)) (snd (calls ! j)))"
proof (induction l calls arbitrary: j rule: updates.induct)
  case (1 l)
  then show ?case by simp
next
  case (2 l t c rest)
  show ?case
  proof (cases j)
    case 0
    then show ?thesis by simp
  next
    case (Suc k)
    with 2 show ?thesis by simp
  qed
qed

text \<open>
  Once call \<open>i\<close> has emitted, \<^verbatim>\<open>last_update\<close> never falls below its clock reading, as
  long as the clock does not run backwards.
\<close>

lemma last_update_after_lower_bound:
  assumes "sorted (map fst calls)" "i < length calls" "updates l calls ! i \<noteq> []"
  shows "i < j \<Longrightarrow> j \<le> length calls \<Longrightarrow> fst (calls ! i) \<le> last_update_after l (take j calls)"
proof (induction j)
  case 0
  then show ?case by simp
next
  case (Suc k)
  then have k: "k < length calls" by simp
  have step: "last_update_after l (take (Suc k) calls) =
      snd (update (last_update_after l (take k calls)) (fst (calls ! k)) (snd (calls ! k)))"
    using k by (simp add: take_Suc_conv_app_nth last_update_after_snoc)
  show ?case
  proof (cases "i = k")
    case True
    have "fst (update (last_update_after l (take i calls)) (fst (calls ! i)) (snd (calls ! i))) \<noteq> []"
      using assms(2,3) updates_nth by simp
    then have "snd (update (last_update_after l (take i calls)) (fst (calls ! i)) (snd (calls ! i)))
                 = fst (calls ! i)"
      by (simp add: update_emitted_iff update_snd)
    with step True show ?thesis by simp
  next
    case False
    with Suc.prems have ik: "i < k" by simp
    then have ih: "fst (calls ! i) \<le> last_update_after l (take k calls)"
      using Suc.IH k by simp
    have "fst (calls ! i) \<le> fst (calls ! k)"
      using assms(1) ik k by (simp add: sorted_iff_nth_mono)
    with ih step show ?thesis by (simp add: update_snd)
  qed
qed

lemma message_free_needs_gap:
  assumes "sorted (map fst calls)" "i < j" "j < length calls"
    "updates l calls ! i \<noteq> []" "message (snd (calls ! j)) = []" "updates l calls ! j \<noteq> []"
  shows "fst (calls ! j) - fst (calls ! i) > 0.5"
proof -
  have lb: "fst (calls ! i) \<le> last_update_after l (take j calls)"
    using last_update_after_lower_bound [OF assms(1) _ assms(4), of j] assms(2,3) by simp
  have "fst (update (last_update_after l (take j calls)) (fst (calls ! j)) (snd (calls ! j))) \<noteq> []"
    using assms(3,6) updates_nth by simp
  then have "fst (calls ! j) - last_update_after l (take j calls) > 0.5"
    using assms(5) by (simp add: update_emitted_iff)
  with lb show ?thesis by linarith
qed

text \<open>
  C6. Take any sequence of callbacks on one handler, each with the clock reading it
  takes, the readings not decreasing, and any value \<open>l\<close> of \<^verbatim>\<open>last_update\<close> before the
  first (\<open>0\<close> for a new handler). Then
  \<^item> two emitted events without a message are more than half a second apart, so no
    window of 500 ms holds two of them;
  \<^item> a callback with a non-empty message is emitted, as that message, whatever the
    time;
  \<^item> an emitted event without a message is the percentage \<open>cur_count / max_count * 100\<close>
    when \<^verbatim>\<open>max_count\<close> is given and positive, and the in-progress text otherwise (the
    text prints the percentage to one decimal place);
  \<^item> of two callbacks without a message 100 ms apart on a new handler, the first is
    emitted and the second is not. The clock is \<^verbatim>\<open>time.time()\<close>, seconds since 1970,
    so its reading is far above the \<open>0.5\<close> the statement asks of it.
\<close>

theorem throttle_behaviour:
  assumes "sorted (map fst calls)"
  shows "(\<forall>i j. i < j \<and> j < length calls \<and>
            message (snd (calls ! i)) = [] \<and> message (snd (calls ! j)) = [] \<and>
            updates l calls ! i \<noteq> [] \<and> updates l calls ! j \<noteq> []
            \<longrightarrow> fst (calls ! j) - fst (calls ! i) > 0.5) \<and>
         (\<forall>i < length calls. message (snd (calls ! i)) \<noteq> [] \<longrightarrow>
            updates l calls ! i = [ProgressMessage (message (snd (calls ! i)))]) \<and>
         (\<forall>i < length calls. message (snd (calls ! i)) = [] \<and> updates l calls ! i \<noteq> [] \<longrightarrow>
            updates l calls ! i =
              [case max_count (snd (calls ! i)) of
                 None \<Rightarrow> ProgressBusy
               | Some m \<Rightarrow> if m > 0
                           then ProgressPercent (cur_count (snd (calls ! i)) / m * 100)
                           else ProgressBusy]) \<and>
         (message c1 = [] \<and> message c2 = [] \<and> t > 0.5 \<longrightarrow>
            length (updates 0 [(t, c1), (t + 0.1, c2)] ! 0) = 1 \<and>
            updates 0 [(t, c1), (t + 0.1, c2)] ! 1 = [])"
proof (intro conjI)
  show "\<forall>i j. i < j \<and> j < length calls \<and>
            message (snd (calls ! i)) = [] \<and> message (snd (calls ! j)) = [] \<and>
            updates l calls ! i \<noteq> [] \<and> updates l calls ! j \<noteq> []
            \<longrightarrow> fst (calls ! j) - fst (calls ! i) > 0.5"
    using message_free_needs_gap [OF assms] by blast
  show "\<forall>i < length calls. message (snd (calls ! i)) \<noteq> [] \<longrightarrow>
            updates l calls ! i = [ProgressMessage (message (snd (calls ! i)))]"
    by (simp add: updates_nth update_message)
  show "\<forall>i < length calls. message (snd (calls ! i)) = [] \<and> updates l calls ! i \<noteq> [] \<longrightarrow>
            updates l calls ! i =
              [case max_count (snd (calls ! i)) of
                 None \<Rightarrow> ProgressBusy
               | Some m \<Rightarrow> if m > 0
                           then ProgressPercent (cur_count (snd (calls ! i)) / m * 100)
                           else ProgressBusy]"
    using update_message_free by (simp add: updates_nth)
  show "message c1 = [] \<and> message c2 = [] \<and> t > 0.5 \<longrightarrow>
            length (updates 0 [(t, c1), (t + 0.1, c2)] ! 0) = 1 \<and>
            updates 0 [(t, c1), (t + 0.1, c2)] ! 1 = []"
    by (auto simp: update_def split: option.splits)
qed

theorem throttle_behaviour_witness:
  "sorted (map fst sample_calls) \<and>
   updates 0 sample_calls =
     [[ProgressPercent 50], [], [ProgressMessage ''done''], [ProgressBusy]] \<and>
   fst (sample_calls ! 3) - fst (sample_calls ! 0) > 0.5 \<and>
   updates 0 (take 2 sample_calls) ! 1 = []"
proof -
  have s: "sorted (map fst sample_calls)" by (simp add: sample_calls_def)
  have u: "updates 0 sample_calls =
     [[ProgressPercent 50], [], [ProgressMessage ''done''], [ProgressBusy]]"
    by (simp add: sample_calls_def update_def)
  have t: "take 2 sample_calls =
      [(1000, snd (sample_calls ! 0)), (1000 + 0.1, snd (sample_calls ! 1))]"
    by (simp add: sample_calls_def)
  have m: "message (snd (sample_calls ! 0)) = [] \<and> message (snd (sample_calls ! 1)) = [] \<and>
           message (snd (sample_calls ! 3)) = [] \<and> length sample_calls = 4"
    by (simp add: sample_calls_def)
  from throttle_behaviour [OF s, of 0 "snd (sample_calls ! 0)" "snd (sample_calls ! 1)" 1000]
  have gap: "fst (sample_calls ! 3) - fst (sample_calls ! 0) > 0.5"
    and second: "updates 0 [(1000, snd (sample_calls ! 0)), (1000 + 0.1, snd (sample_calls ! 1))] ! 1 = []"
    using u m by auto
  from s u gap second t show ?thesis by simp
qed

text \<open>
  C10. Every emission, a message included, restarts the window: with clock readings
  that do not decrease, a callback without a message that comes no more than half a
  second (in particular less than 500 ms) after any emitted event emits nothing.
\<close>

theorem emission_resets_window:
  assumes "sorted (map fst calls)" "i < j" "j < length calls"
    "updates l calls ! i \<noteq> []" "message (snd (calls ! j)) = []"
    "fst (calls ! j) - fst (calls ! i) \<le> 0.5"
  shows "updates l calls ! j = []"
proof (rule ccontr)
  assume "updates l calls ! j \<noteq> []"
  then have "fst (calls ! j) - fst (calls ! i) > 0.5"
    using message_free_needs_gap assms(1-5) by blast
  with assms(6) show False by simp
qed

text \<open>
  In the sample the message at 1000.2 s is emitted; the call without a message that
  follows it 400 ms later (more than 500 ms after the last percentage) stays silent.
\<close>

theorem emission_resets_window_witness:
  "sorted (map fst (take 3 sample_calls @ [(1000.6, snd (sample_calls ! 3))])) \<and>
   updates 0 (take 3 sample_calls @ [(1000.6, snd (sample_calls ! 3))]) ! 2
     = [ProgressMessage ''done''] \<and>
   updates 0 (take 3 sample_calls @ [(1000.6, snd (sample_calls ! 3))]) ! 3 = []"
proof -
  let ?calls = "take 3 sample_calls @ [(1000.6, snd (sample_calls ! 3))]"
  have s: "sorted (map fst ?calls)" by (simp add: sample_calls_def)
  have e: "updates 0 ?calls ! 2 = [ProgressMessage ''done'']"
    by (simp add: sample_calls_def update_def)
  have ne: "updates 0 ?calls ! 2 \<noteq> []" using e by simp
  have m: "message (snd (?calls ! 3)) = []" by (simp add: sample_calls_def)
  have g: "fst (?calls ! 3) - fst (?calls ! 2) \<le> 0.5" by (simp add: sample_calls_def)
  have "updates 0 ?calls ! 3 = []"
    by (rule emission_resets_window [OF s _ _ ne m g]) (simp_all add: sample_calls_def)
  with s e show ?thesis by simp
qed

subsection \<open>One terminal signal per run\<close>














text \<open>An operation outside the chain emits nothing once the repository has opened.\<close>

lemma unsupported_operation_is_silent:
  "run sample_backend \<lparr>repo_path = Some ''/work/repo'', operation = ''fetch'', args = []\<rparr> = []"
  by (simp add: run_def dispatch_def and_then_def call_def sample_backend_def)

subsection \<open>Commit details\<close>

lemma files_loop_map: "files_loop b c items acc = acc @ map (file_entry b c) items"
  by (induction items arbitrary: acc) simp_all

lemma file_entry_fields:
  "fi_path (file_entry b c d) = item_path d \<and>
   fi_change_type (file_entry b c d) = change_type d \<and>
   fi_diff (file_entry b c d) =
     (case diff_content b c d of Inr t \<Rightarrow> DiffText t | Inl e \<Rightarrow> DiffUnavailable (str_exn e))"
  by (simp add: file_entry_def split: sum.splits)

text \<open>
  A show\_commit run whose repository opens, whose commit is found and whose list of
  changed files is obtained emits one result, with one entry per file of that list, in
  order, each with the path and change type of the file. For a commit with a parent
  the entry holds the text of \<^verbatim>\<open>git diff\<close> between the first parent and the commit for
  that path; for a commit without parents it holds what \<^verbatim>\<open>git show commit:path\<close> prints,
  the content of the path in that commit. Where that call raises, the entry holds the
  placeholder with the text of the exception, and the other entries and the result are
  produced all the same.
\<close>

theorem show_commit_entries:
  assumes "open_repo b = Inr ()" "lookup_commit b h = Inr c"
    "commit_diff b c (case parents c of [] \<Rightarrow> None | p # _ \<Rightarrow> Some p) = Inr items"
  shows "\<exists>files.
           run b \<lparr>repo_path = rp, operation = ''show_commit'', args = h # rest\<rparr> =
             [Result (CommitDetail (log_entry c) files)] \<and>
           length files = length items \<and>
           (\<forall>i < length items.
              fi_path (files ! i) = item_path (items ! i) \<and>
              fi_change_type (files ! i) = change_type (items ! i) \<and>
              fi_diff (files ! i) =
                (case parents c of
                   p # _ \<Rightarrow>
                     (case git_diff_commits b p (hexsha c) (item_path (items ! i)) of
                        Inr t \<Rightarrow> DiffText t
                      | Inl e \<Rightarrow> DiffUnavailable (str_exn e))
                 | [] \<Rightarrow>
                     (case git_show b
                             (hexsha c @ '':'' @
                              (case item_path (items ! i) of None \<Rightarrow> ''None'' | Some s \<Rightarrow> s)) of
                        Inr t \<Rightarrow> DiffText t
                      | Inl e \<Rightarrow> DiffUnavailable (str_exn e))))"
proof -
  let ?files = "map (file_entry b c) items"
  have r: "run b \<lparr>repo_path = rp, operation = ''show_commit'', args = h # rest\<rparr> =
             [Result (CommitDetail (log_entry c) ?files)]"
    using assms
    by (simp add: run_def dispatch_def run_show_commit_def and_then_def call_def emit_def
        arg_def files_loop_map)
  have e: "\<forall>i < length items.
              fi_path (?files ! i) = item_path (items ! i) \<and>
              fi_change_type (?files ! i) = change_type (items ! i) \<and>
              fi_diff (?files ! i) =
                (case parents c of
                   p # _ \<Rightarrow>
                     (case git_diff_commits b p (hexsha c) (item_path (items ! i)) of
                        Inr t \<Rightarrow> DiffText t
                      | Inl e \<Rightarrow> DiffUnavailable (str_exn e))
                 | [] \<Rightarrow>
                     (case git_show b
                             (hexsha c @ '':'' @
                              (case item_path (items ! i) of None \<Rightarrow> ''None'' | Some s \<Rightarrow> s)) of
                        Inr t \<Rightarrow> DiffText t
                      | Inl e \<Rightarrow> DiffUnavailable (str_exn e)))"
    by (simp add: file_entry_fields diff_content_def fmt_path_def split: list.splits)
  from r e show ?thesis by (intro exI [of _ ?files]) simp
qed

theorem show_commit_entries_witness:
  "open_repo sample_backend = Inr () \<and>
   lookup_commit sample_backend (PStr ''1f3a5c7e9b2d'') = Inr sample_commit \<and>
   commit_diff sample_backend sample_commit (Some ''0a1b2c3d4e5f'') = Inr sample_items \<and>
   run sample_backend
     \<lparr>repo_path = Some ''/work/repo'', operation = ''show_commit'',
      args = [PStr ''1f3a5c7e9b2d'']\<rparr> =
     [Result (CommitDetail (log_entry sample_commit)
        [\<lparr>fi_path = Some ''a.txt'', fi_change_type = ''M'', fi_diff = DiffText ''+line''\<rparr>,
         \<lparr>fi_path = Some ''gone.txt'', fi_change_type = ''D'',
          fi_diff = DiffUnavailable ''bad revision''\<rparr>])]"
proof -
  have o: "open_repo sample_backend = Inr ()" by (simp add: sample_backend_def)
  have l: "lookup_commit sample_backend (PStr ''1f3a5c7e9b2d'') = Inr sample_commit"
    by (simp add: sample_backend_def)
  have d: "commit_diff sample_backend sample_commit
             (case parents sample_commit of [] \<Rightarrow> None | p # _ \<Rightarrow> Some p) = Inr sample_items"
    by (simp add: sample_backend_def)
  have d': "commit_diff sample_backend sample_commit (Some ''0a1b2c3d4e5f'') = Inr sample_items"
    by (simp add: sample_backend_def)
  from show_commit_entries [OF o l d, of "Some ''/work/repo''" "[]"]
  obtain files where
    r: "run sample_backend
          \<lparr>repo_path = Some ''/work/repo'', operation = ''show_commit'',
           args = [PStr ''1f3a5c7e9b2d'']\<rparr> =
        [Result (CommitDetail (log_entry sample_commit) files)]"
    by blast
  have "run sample_backend
          \<lparr>repo_path = Some ''/work/repo'', operation = ''show_commit'',
           args = [PStr ''1f3a5c7e9b2d'']\<rparr> =
     [Result (CommitDetail (log_entry sample_commit)
        [\<lparr>fi_path = Some ''a.txt'', fi_change_type = ''M'', fi_diff = DiffText ''+line''\<rparr>,
         \<lparr>fi_path = Some ''gone.txt'', fi_change_type = ''D'',
          fi_diff = DiffUnavailable ''bad revision''\<rparr>])]"
    by (simp add: run_def dispatch_def run_show_commit_def and_then_def call_def emit_def
        arg_def sample_backend_def sample_commit_def sample_items_def file_entry_def
        diff_content_def item_path_def)
  with o l d' r show ?thesis by simp
qed

text \<open>
  A commit without parents, when \<^verbatim>\<open>commit.diff()\<close> lists files: the entries hold what
  \<^verbatim>\<open>git show\<close> prints.
\<close>

lemma show_commit_root_example:
  "run (sample_backend\<lparr>lookup_commit := (\<lambda>h. Inr sample_root_commit)\<rparr>)
     \<lparr>repo_path = Some ''/work/repo'', operation = ''show_commit'',
      args = [PStr ''0a1b2c3d4e5f'']\<rparr> =
     [Result (CommitDetail (log_entry sample_root_commit)
        [\<lparr>fi_path = Some ''a.txt'', fi_change_type = ''M'', fi_diff = DiffText ''content''\<rparr>,
         \<lparr>fi_path = Some ''gone.txt'', fi_change_type = ''D'',
          fi_diff = DiffText ''content''\<rparr>])]"
  by (simp add: run_def dispatch_def run_show_commit_def and_then_def call_def emit_def
      arg_def sample_backend_def sample_root_commit_def sample_items_def file_entry_def
      diff_content_def item_path_def)

text \<open>
  C7. For a commit without parents every path of the commit should get an entry with
  its complete content (the source says so at the two places that treat the initial
  commit). The list of files comes from \<^verbatim>\<open>commit.diff()\<close>, though, which compares the
  commit with the index and not with an empty tree. When the first commit is checked
  out and nothing is staged, the list is empty and the result has no entry at all.
\<close>

theorem root_commit_at_head_has_no_entries:
  "parents sample_root_commit = [] \<and>
   run root_at_head_backend
     \<lparr>repo_path = Some ''/work/repo'', operation = ''show_commit'',
      args = [PStr ''0a1b2c3d4e5f'']\<rparr> =
     [Result (CommitDetail (log_entry sample_root_commit) [])]"
  by (simp add: run_def dispatch_def run_show_commit_def and_then_def call_def emit_def
      arg_def root_at_head_backend_def sample_backend_def sample_root_commit_def)

subsection \<open>Pull options\<close>

text \<open>
  C8. A pull run that gets as far as the network call hands \<^verbatim>\<open>origin.pull\<close> keyword
  arguments in which \<^verbatim>\<open>rebase\<close> is the first argument of the worker, \<^verbatim>\<open>True\<close> when there
  is none, and \<^verbatim>\<open>prune\<close> is the second argument, \<^verbatim>\<open>True\<close> when there is none (the key is
  left out when the value is falsy, which for git is no pruning). Neither value
  depends on the other argument. What the run emits is decided by that call.
\<close>

theorem pull_options:
  assumes "open_repo b = Inr ()"
    "git_config b ''http.lowSpeedLimit'' ''1000'' = Inr ()"
    "git_config b ''http.lowSpeedTime'' ''30'' = Inr ()"
    "remote_origin b = Inr ()"
  shows "\<exists>kw.
           run b \<lparr>repo_path = rp, operation = ''pull'', args = as\<rparr> =
             map Progress (concat (updates 0 (fst (origin_pull b kw)))) @
             [case snd (origin_pull b kw) of
                Inl e \<Rightarrow> Error (Raw (str_exn e))
              | Inr u \<Rightarrow> Result (Confirmation Pulled)] \<and>
           kw ''rebase'' = Some (if length as > 0 then as ! 0 else PBool True) \<and>
           kw ''prune'' =
             (let prune = (if length as > 1 then as ! 1 else PBool True)
              in if truthy prune then Some prune else None) \<and>
           dom kw \<subseteq> {''rebase'', ''prune''}"
proof -
  let ?kw = "pull_kwargs as"
  obtain calls r where a: "origin_pull b ?kw = (calls, r)" by (cases "origin_pull b ?kw")
  have "run b \<lparr>repo_path = rp, operation = ''pull'', args = as\<rparr> =
             map Progress (concat (updates 0 (fst (origin_pull b ?kw)))) @
             [case snd (origin_pull b ?kw) of
                Inl e \<Rightarrow> Error (Raw (str_exn e))
              | Inr u \<Rightarrow> Result (Confirmation Pulled)]"
    using assms a
    by (cases r)
       (simp_all add: run_def dispatch_def run_pull_def set_transport_limits_def and_then_def
          call_def emit_def with_progress_def)
  moreover have "?kw ''rebase'' = Some (if length as > 0 then as ! 0 else PBool True)"
    by (simp add: pull_kwargs_def pull_rebase_def Let_def)
  moreover have "?kw ''prune'' =
             (let prune = (if length as > 1 then as ! 1 else PBool True)
              in if truthy prune then Some prune else None)"
    by (simp add: pull_kwargs_def pull_prune_def Let_def)
  moreover have "dom ?kw \<subseteq> {''rebase'', ''prune''}"
    by (auto simp: pull_kwargs_def Let_def split: if_splits)
  ultimately show ?thesis by blast
qed

theorem pull_options_witness:
  "open_repo sample_backend = Inr () \<and>
   git_config sample_backend ''http.lowSpeedLimit'' ''1000'' = Inr () \<and>
   git_config sample_backend ''http.lowSpeedTime'' ''30'' = Inr () \<and>
   remote_origin sample_backend = Inr () \<and>
   (\<exists>kw. kw ''rebase'' = Some (PBool True) \<and> kw ''prune'' = Some (PBool True) \<and>
      run sample_backend \<lparr>repo_path = Some ''/work/repo'', operation = ''pull'', args = []\<rparr> =
        map Progress (concat (updates 0 (fst (origin_pull sample_backend kw)))) @
        [Result (Confirmation Pulled)]) \<and>
   (\<exists>kw. kw ''rebase'' = Some (PBool False) \<and> kw ''prune'' = Some (PBool True) \<and>
      run sample_backend
        \<lparr>repo_path = Some ''/work/repo'', operation = ''pull'', args = [PBool False]\<rparr> =
        map Progress (concat (updates 0 (fst (origin_pull sample_backend kw)))) @
        [Result (Confirmation Pulled)])"
proof -
  have o: "open_repo sample_backend = Inr ()" by (simp add: sample_backend_def)
  have c1: "git_config sample_backend ''http.lowSpeedLimit'' ''1000'' = Inr ()"
    by (simp add: sample_backend_def)
  have c2: "git_config sample_backend ''http.lowSpeedTime'' ''30'' = Inr ()"
    by (simp add: sample_backend_def)
  have r: "remote_origin sample_backend = Inr ()" by (simp add: sample_backend_def)
  have p: "\<And>kw. snd (origin_pull sample_backend kw) = Inr ()" by (simp add: sample_backend_def)
  from pull_options [OF o c1 c2 r, of "Some ''/work/repo''" "[]"]
  have a: "\<exists>kw. kw ''rebase'' = Some (PBool True) \<and> kw ''prune'' = Some (PBool True) \<and>
      run sample_backend \<lparr>repo_path = Some ''/work/repo'', operation = ''pull'', args = []\<rparr> =
        map Progress (concat (updates 0 (fst (origin_pull sample_backend kw)))) @
        [Result (Confirmation Pulled)]"
    by (simp add: p) blast
  from pull_options [OF o c1 c2 r, of "Some ''/work/repo''" "[PBool False]"]
  have b: "\<exists>kw. kw ''rebase'' = Some (PBool False) \<and> kw ''prune'' = Some (PBool True) \<and>
      run sample_backend
        \<lparr>repo_path = Some ''/work/repo'', operation = ''pull'', args = [PBool False]\<rparr> =
        map Progress (concat (updates 0 (fst (origin_pull sample_backend kw)))) @
        [Result (Confirmation Pulled)]"
    by (simp add: p) blast
  from o c1 c2 r a b show ?thesis by blast
qed

subsection \<open>Switching to a remote branch\<close>

lemma split_on_nonempty: "split_on sep s \<noteq> []"
  by (induction s) (auto split: list.splits)

lemma join_split_on: "join [sep] (split_on sep s) = s"
proof (induction s)
  case Nil
  show ?case by simp
next
  case (Cons c cs)
  obtain p ps where sp: "split_on sep cs = p # ps"
    using split_on_nonempty [of sep cs] by (cases "split_on sep cs") auto
  show ?case
  proof (cases "c = sep")
    case True
    with Cons sp show ?thesis by simp
  next
    case False
    with Cons sp show ?thesis by (cases ps) simp_all
  qed
qed

lemma split_on_first:
  "sep \<notin> set r \<Longrightarrow> split_on sep (r @ sep # rest) = r # split_on sep rest"
proof (induction r)
  case Nil
  show ?case by simp
next
  case (Cons c cs)
  then show ?case by auto
qed

lemma actual_branch_name_strips_remote:
  assumes "CHR ''/'' \<notin> set remote"
  shows "actual_branch_name (remote @ ''/'' @ path) = path"
proof -
  have c: "contains (remote @ ''/'' @ path) ''/''"
    unfolding contains_iff by blast
  have "split_on CHR ''/'' (remote @ ''/'' @ path) = remote # split_on CHR ''/'' path"
    using split_on_first [OF assms] by simp
  with c show ?thesis
    by (simp add: actual_branch_name_def join_split_on)
qed

text \<open>
  \<^verbatim>\<open>switch_branch\<close> is given a reference \<^verbatim>\<open>remote/path\<close> that the branch list shows
  under its remote label (the label is how the method tells a remote-tracking reference
  from a local branch), the remote name holding no \<^verbatim>\<open>/\<close>, the path any string, slashes
  included. It cuts off the remote name and the first slash only. For every list of
  local branches of the repository: if the path is among them, the worker it starts is
  a plain checkout of the path; if not, the worker is \<^verbatim>\<open>checkout -b path remote/path\<close>,
  a new local branch of that name tracking the reference. The witness instantiates it
  on \<^verbatim>\<open>origin/feature-x\<close> with the local branches \<^verbatim>\<open>main\<close>, and \<^verbatim>\<open>feature-x\<close> and \<^verbatim>\<open>main\<close>.
\<close>

theorem switch_to_remote_branch:
  assumes "startswith (combo_text (branch_combo m) (remote @ ''/'' @ path)) ''remote: ''"
    and "CHR ''/'' \<notin> set remote"
    and "current_repo m = Some v" and "view_branches v = Inr locals"
  shows "threadpool (switch_branch m (remote @ ''/'' @ path)) =
           threadpool m @
           [\<lparr>repo_path = current_repo_path m, operation = ''checkout'',
             args = (if path \<in> set locals then [PStr path]
                     else [PStr ''-b'', PStr path, PStr (remote @ ''/'' @ path)])\<rparr>]"
proof -
  have ne: "remote @ ''/'' @ path \<noteq> []" by simp
  have e: "local_branch_exists (current_repo (add_operation ''switch_branch'' m)) path
           = (path \<in> set locals)"
    using assms(3,4) by (simp add: local_branch_exists_def add_operation_def)
  have a: "actual_branch_name (remote @ ''/'' @ path) = path"
    by (rule actual_branch_name_strips_remote [OF assms(2)])
  show ?thesis
    using assms(1) ne e a
    by (simp add: switch_branch_def Let_def start_worker_def add_operation_def)
qed

lemma find_local_items:
  "ref \<notin> set locals \<Longrightarrow>
   find (\<lambda>item. snd item = Some ref) (map (\<lambda>branch. (f branch, Some branch)) locals @ rest) =
   find (\<lambda>item. snd item = Some ref) rest"
  by (induction locals) auto

lemma find_remote_items:
  "ref \<in> set remotes \<Longrightarrow>
   find (\<lambda>item. snd item = Some ref) (map (\<lambda>branch. (f branch, Some branch)) remotes) =
   Some (f ref, Some ref)"
  by (induction remotes) auto

text \<open>
  A remote branch of the branches result that shares its name with no local branch is
  found under its remote label.
\<close>

lemma remote_reference_is_tagged:
  assumes "ref \<in> set (remote_branches r)" "ref \<notin> set (local_branches r)"
  shows "combo_text (branch_combo (on_branches_result m r)) ref = ''remote: '' @ ref"
proof -
  let ?P = "\<lambda>item. snd item = Some ref"
  let ?locals = "map (\<lambda>branch. (''localctx: '' @ branch, Some branch)) (local_branches r)"
  let ?remotes = "map (\<lambda>branch. (''remote: '' @ branch, Some branch)) (remote_branches r)"
  from assms(1) have ne: "remote_branches r \<noteq> []" by auto
  have "branch_combo (on_branches_result m r) = ?locals @ (([], None) # ?remotes)"
    using ne by (simp add: on_branches_result_def)
  then have "find ?P (branch_combo (on_branches_result m r)) = find ?P (([], None) # ?remotes)"
    by (simp only: find_local_items [OF assms(2)])
  also have "\<dots> = find ?P ?remotes" by simp
  also have "\<dots> = Some (''remote: '' @ ref, Some ref)"
    by (rule find_remote_items [OF assms(1)])
  finally show ?thesis by (simp add: combo_text_def)
qed

theorem switch_to_remote_branch_witness:
  "startswith (combo_text (branch_combo (branches_manager [''main''])) ''origin/feature-x'')
     ''remote: '' \<and>
   startswith
     (combo_text (branch_combo (branches_manager [''feature-x'', ''main''])) ''origin/feature-x'')
     ''remote: '' \<and>
   CHR ''/'' \<notin> set ''origin'' \<and>
   threadpool (switch_branch (branches_manager [''main'']) ''origin/feature-x'') =
     [\<lparr>repo_path = Some ''/work/repo'', operation = ''checkout'',
       args = [PStr ''-b'', PStr ''feature-x'', PStr ''origin/feature-x'']\<rparr>] \<and>
   threadpool (switch_branch (branches_manager [''feature-x'', ''main'']) ''origin/feature-x'') =
     [\<lparr>repo_path = Some ''/work/repo'', operation = ''checkout'',
       args = [PStr ''feature-x'']\<rparr>]"
proof -
  have n: "''origin'' @ ''/'' @ ''feature-x'' = ''origin/feature-x''" by simp
  have s: "CHR ''/'' \<notin> set ''origin''" by simp
  have t1: "startswith
      (combo_text (branch_combo (branches_manager [''main''])) (''origin'' @ ''/'' @ ''feature-x''))
      ''remote: ''"
    by (simp add: branches_manager_def on_branches_result_def combo_text_def startswith_def)
  have t2: "startswith
      (combo_text (branch_combo (branches_manager [''feature-x'', ''main'']))
         (''origin'' @ ''/'' @ ''feature-x''))
      ''remote: ''"
    by (simp add: branches_manager_def on_branches_result_def combo_text_def startswith_def)
  have r1: "current_repo (branches_manager [''main'']) =
      Some \<lparr>view_branches = Inr [''main''], view_active_branch = Inr ''main''\<rparr>"
    by (simp add: branches_manager_def on_branches_result_def)
  have r2: "current_repo (branches_manager [''feature-x'', ''main'']) =
      Some \<lparr>view_branches = Inr [''feature-x'', ''main''], view_active_branch = Inr ''main''\<rparr>"
    by (simp add: branches_manager_def on_branches_result_def)
  have p: "\<And>ls. threadpool (branches_manager ls) = [] \<and>
                current_repo_path (branches_manager ls) = Some ''/work/repo''"
    by (simp add: branches_manager_def on_branches_result_def sample_manager_def)
  have a: "threadpool (switch_branch (branches_manager [''main'']) ''origin/feature-x'') =
     [\<lparr>repo_path = Some ''/work/repo'', operation = ''checkout'',
       args = [PStr ''-b'', PStr ''feature-x'', PStr ''origin/feature-x'']\<rparr>]"
    using switch_to_remote_branch [OF t1 s r1, of "[''main'']"] p by simp
  have b: "threadpool (switch_branch (branches_manager [''feature-x'', ''main'']) ''origin/feature-x'') =
     [\<lparr>repo_path = Some ''/work/repo'', operation = ''checkout'',
       args = [PStr ''feature-x'']\<rparr>]"
    using switch_to_remote_branch [OF t2 s r2, of "[''feature-x'', ''main'']"] p by simp
  from t1 t2 s a b show ?thesis by simp
qed

text \<open>
  C3. For a remote-tracking reference and any list of local branches the method should
  cut off the remote name and check for a local branch of the remaining name. It
  finds the label by the name of the reference, however, not by the item that was
  activated. When a local branch has the full name of the remote reference, the local
  item comes first in the list: activating the item shown as \<^verbatim>\<open>remote: origin/feature-x\<close>
  starts a plain checkout of \<^verbatim>\<open>origin/feature-x\<close>, though no local branch is called
  \<^verbatim>\<open>feature-x\<close> and a tracking branch of that name was to be created.
\<close>

theorem remote_item_with_shared_name_is_checked_out_plainly:
  "item_at (branch_combo shared_name_manager) 3 =
     (''remote: origin/feature-x'', Some ''origin/feature-x'') \<and>
   ''feature-x'' \<notin> set [''origin/feature-x'', ''main''] \<and>
   threadpool (on_branch_activated shared_name_manager 3) =
     [\<lparr>repo_path = Some ''/work/repo'', operation = ''checkout'',
       args = [PStr ''origin/feature-x'']\<rparr>]"
  by (simp add: shared_name_manager_def on_branch_activated_def item_at_def switch_branch_def
      on_branches_result_def combo_text_def startswith_def Let_def start_worker_def
      add_operation_def sample_manager_def)

subsection \<open>Deduplication of submissions\<close>

lemma start_worker_active: "active_operations (start_worker m op as) = active_operations m"
  by (simp add: start_worker_def)

lemma execute_git_task_active:
  "active_operations (execute_git_task m op as) = active_operations m"
  by (simp add: execute_git_task_def start_worker_active)

lemma add_operation_active:
  "active_operations (add_operation k m) = insert k (active_operations m)"
  by (simp add: add_operation_def)

lemma switch_branch_active:
  "active_operations m \<subseteq> active_operations (switch_branch m name)"
  by (auto simp: switch_branch_def Let_def start_worker_active add_operation_active)

lemma submit_keeps_operations:
  "active_operations m \<subseteq> active_operations (submit m s)"
proof (cases s)
  case (MergeBranch branch_name current_branch reply_yes)
  then show ?thesis
    by (auto simp: merge_branch_def execute_git_task_active add_operation_active
        discard_operation_def add_operation_def)
next
  case (BranchActivated index)
  then show ?thesis
    using switch_branch_active
    by (auto simp: on_branch_activated_def split: prod.splits option.splits)
next
  case (CherryPickCommit full_hash chosen reply_yes)
  then show ?thesis
    by (auto simp: cherry_pick_commit_def execute_git_task_active add_operation_active
        split: option.splits sum.splits)
next
  case (DeleteBranch chosen answer)
  then show ?thesis
    by (auto simp: delete_branch_def start_worker_active split: option.splits sum.splits)
next
  case (ShowFileDiff row)
  then show ?thesis
    by (auto simp: show_file_diff_def start_worker_active split: option.splits prod.splits)
qed (auto simp: push_def pull_def commit_def commit_and_push_def create_branch_def
      refresh_status_def stage_all_def refresh_history_def refresh_branches_def
      show_commit_detail_def cancel_file_changes_def execute_git_task_active
      start_worker_active add_operation_active)

lemma submissions_keep_operations:
  "active_operations m \<subseteq> active_operations (foldl submit m between)"
proof (induction between arbitrary: m)
  case Nil
  show ?case by simp
next
  case (Cons s rest)
  have "active_operations m \<subseteq> active_operations (submit m s)"
    by (rule submit_keeps_operations)
  also have "\<dots> \<subseteq> active_operations (foldl submit (submit m s) rest)"
    by (rule Cons.IH)
  finally show ?case by simp
qed

lemma switch_branch_started:
  "threadpool (switch_branch m name) \<noteq> threadpool m \<Longrightarrow>
   ''switch_branch'' \<in> active_operations (switch_branch m name)"
  by (auto simp: switch_branch_def Let_def start_worker_active add_operation_active
      split: if_splits)

lemma started_worker_holds_key:
  assumes "guard_key s = Some k" "threadpool (submit m s) \<noteq> threadpool m"
  shows "k \<in> active_operations (submit m s)"
proof (cases s)
  case (MergeBranch branch_name current_branch reply_yes)
  with assms show ?thesis
    by (auto simp: merge_branch_def execute_git_task_def start_worker_def add_operation_def
        discard_operation_def split: if_splits)
next
  case (BranchActivated index)
  with assms show ?thesis
    using switch_branch_started
    by (auto simp: on_branch_activated_def split: prod.splits option.splits if_splits)
next
  case (CherryPickCommit full_hash chosen reply_yes)
  with assms show ?thesis
    by (auto simp: cherry_pick_commit_def execute_git_task_def start_worker_def
        add_operation_def split: option.splits sum.splits if_splits)
qed (use assms in \<open>auto simp: push_def pull_def commit_def commit_and_push_def create_branch_def
      refresh_status_def stage_all_def show_commit_detail_def execute_git_task_def
      start_worker_def add_operation_def split: if_splits\<close>)

lemma guarded_submission_rejected:
  "guard_key s = Some k \<Longrightarrow> k \<in> active_operations m \<Longrightarrow> submit m s = m"
  by (cases s)
     (auto simp: push_def pull_def commit_def commit_and_push_def create_branch_def
        merge_branch_def refresh_status_def stage_all_def show_commit_detail_def
        cherry_pick_commit_def on_branch_activated_def)

text \<open>
  C2, as the code has it. The key of a submission is the name its method looks up in
  \<^verbatim>\<open>active_operations\<close>; it names the operation only, not the repository. Once a
  submission has started its worker, every later submission with the same key is
  rejected at once, whatever other submissions are made in between: the manager is
  left as it was and no worker is created. That covers push (with or without upstream,
  under the one key \<^verbatim>\<open>push\<close>), pull, commit, commit and push, create branch, merge, stage
  all, cherry-pick and branch activation, and also two read-only ones, the status
  refresh and the commit detail. It lasts as long as the key stays in the set: the
  result callback of the operation discards it, and \<^verbatim>\<open>handle_git_error\<close> empties the
  set on the error of any worker. The history refresh (log), the branches refresh and
  the file diff look nothing up: they start their worker whatever the set holds.
\<close>

theorem dedup_while_in_flight:
  "(guard_key s = Some k \<and> guard_key s' = Some k \<and>
    threadpool (submit m s) \<noteq> threadpool m \<longrightarrow>
      submit (foldl submit (submit m s) between) s' = foldl submit (submit m s) between) \<and>
   (\<not> no_repo_path m \<longrightarrow>
      submit m RefreshHistory = start_worker m ''log'' [] \<and>
      submit m RefreshBranches = start_worker m ''branches'' []) \<and>
   (status \<in> {Unstaged, Modified, Untracked} \<longrightarrow>
      submit m (ShowFileDiff (Some (status, path))) = start_worker m ''diff'' [PStr path])"
proof (intro conjI impI)
  assume a: "guard_key s = Some k \<and> guard_key s' = Some k \<and>
    threadpool (submit m s) \<noteq> threadpool m"
  then have "k \<in> active_operations (submit m s)"
    using started_worker_holds_key by blast
  then have "k \<in> active_operations (foldl submit (submit m s) between)"
    using submissions_keep_operations by blast
  with a show "submit (foldl submit (submit m s) between) s' = foldl submit (submit m s) between"
    using guarded_submission_rejected by blast
next
  assume "\<not> no_repo_path m"
  then show "submit m RefreshHistory = start_worker m ''log'' []"
    by (simp add: refresh_history_def execute_git_task_def)
next
  assume "\<not> no_repo_path m"
  then show "submit m RefreshBranches = start_worker m ''branches'' []"
    by (simp add: refresh_branches_def execute_git_task_def)
next
  assume "status \<in> {Unstaged, Modified, Untracked}"
  then show "submit m (ShowFileDiff (Some (status, path))) = start_worker m ''diff'' [PStr path]"
    by (auto simp: show_file_diff_def)
qed

theorem dedup_while_in_flight_witness:
  "guard_key (Push False) = Some ''push'' \<and> guard_key (Push True) = Some ''push'' \<and>
   threadpool (submit sample_manager (Push False)) \<noteq> threadpool sample_manager \<and>
   map operation
     (threadpool (submit (foldl submit (submit sample_manager (Push False))
                            [RefreshHistory, Commit ''fix'']) (Push True))) =
     [''push'', ''log'', ''commit''] \<and>
   \<not> no_repo_path sample_manager \<and>
   threadpool (submit sample_manager RefreshBranches) =
     [\<lparr>repo_path = Some ''/work/repo'', operation = ''branches'', args = []\<rparr>] \<and>
   Modified \<in> {Unstaged, Modified, Untracked} \<and>
   threadpool (submit sample_manager (ShowFileDiff (Some (Modified, ''a.txt'')))) =
     [\<lparr>repo_path = Some ''/work/repo'', operation = ''diff'', args = [PStr ''a.txt'']\<rparr>]"
proof -
  have g: "guard_key (Push False) = Some ''push'' \<and> guard_key (Push True) = Some ''push''"
    by simp
  have st: "threadpool (submit sample_manager (Push False)) \<noteq> threadpool sample_manager"
    by (simp add: push_def execute_git_task_def no_repo_path_def start_worker_def
        add_operation_def sample_manager_def)
  have n: "\<not> no_repo_path sample_manager"
    by (simp add: sample_manager_def no_repo_path_def)
  have b: "map operation
     (threadpool (foldl submit (submit sample_manager (Push False))
                            [RefreshHistory, Commit ''fix''])) =
     [''push'', ''log'', ''commit'']"
    by (simp add: push_def commit_def refresh_history_def execute_git_task_def no_repo_path_def
        start_worker_def add_operation_def sample_manager_def strip_def py_isspace_def)
  have t: "threadpool sample_manager = [] \<and>
           current_repo_path sample_manager = Some ''/work/repo''"
    by (simp add: sample_manager_def)
  from dedup_while_in_flight [of "Push False" "''push''" "Push True" sample_manager
      "[RefreshHistory, Commit ''fix'']" Modified "''a.txt''"] g st n b t
  show ?thesis by (simp add: start_worker_def)
qed

text \<open>
  C2 as stated fails in two ways. The read-only kinds status and show\_commit do not
  bypass the deduplication: a status refresh made while \<^verbatim>\<open>refresh_status\<close> is in the set
  starts no worker, and neither does a commit detail request made while \<^verbatim>\<open>show_commit\<close>
  is in the set, though both start one otherwise. And a key in flight does not always
  reject: with a push under way, once \<^verbatim>\<open>handle_git_error\<close> has handled the error of
  another worker (here the status worker), a second push starts a second worker.
\<close>

theorem status_submission_is_deduplicated:
  "threadpool (submit sample_manager RefreshStatus) =
     [\<lparr>repo_path = Some ''/work/repo'', operation = ''status'', args = []\<rparr>] \<and>
   threadpool (submit push_busy_manager RefreshStatus) = [] \<and>
   threadpool (submit push_busy_manager (ShowCommitDetail ''1f3a5c7e9b2d'')) =
     [\<lparr>repo_path = Some ''/work/repo'', operation = ''show_commit'',
       args = [PStr ''1f3a5c7e9b2d'']\<rparr>] \<and>
   threadpool (submit (add_operation ''show_commit'' push_busy_manager)
                 (ShowCommitDetail ''1f3a5c7e9b2d'')) = [] \<and>
   map operation
     (threadpool
        (submit
           (snd (handle_git_error (submit (submit sample_manager (Push False)) RefreshStatus)
                   ''fatal: not a git repository''))
           (Push False))) = [''push'', ''status'', ''push'']"
  by (simp add: refresh_status_def show_commit_detail_def push_def handle_git_error_def
      execute_git_task_def no_repo_path_def
      start_worker_def add_operation_def sample_manager_def push_busy_manager_def)

text \<open>\<^verbatim>\<open>delete_branch\<close> looks nothing up either: two requests in a row start two workers.\<close>

lemma delete_branch_is_not_deduplicated:
  "map operation
     (threadpool
        (submit (submit (sample_manager\<lparr>current_repo :=
                   Some \<lparr>view_branches = Inr [''main'', ''old''],
                         view_active_branch = Inr ''main''\<rparr>\<rparr>)
                   (DeleteBranch (Some ''old'') AnswerYes))
           (DeleteBranch (Some ''old'') AnswerYes))) =
   [''delete_branch'', ''delete_branch'']"
  by (simp add: delete_branch_def other_branches_def no_repo_path_def start_worker_def
      sample_manager_def)

end
